theory Spec2Isabelle
  imports Complex_Main "HOL-Library.Multiset"
begin

section \<open>Data model\<close>

text \<open>
  The repository holds two variants of the page component \<^verbatim>\<open>Home\<close>: the file
  \<^verbatim>\<open>src/Home.tsx\<close>, which keeps all state in React hooks of one component, and
  \<^verbatim>\<open>src/unnamed/part_000\<close>, whose \<^verbatim>\<open>Dashboard\<close> component reads one user's
  record and writes it back through \<^verbatim>\<open>onUpdateUserData\<close>.  Both are embedded; a
  definition taken from the second variant carries the suffix \<open>_Dashboard\<close>.

  A handler of \<^verbatim>\<open>Home.tsx\<close> reads the state of the render it was created in and,
  inside a functional update, the latest state; a handler of the \<^verbatim>\<open>Dashboard\<close>
  variant reads \<^verbatim>\<open>userData\<close> of its render.  A handler here takes one state \<open>st\<close>
  for both: it runs on a render that has seen every earlier update.  Only the
  \<^verbatim>\<open>setTimeout\<close> callbacks of \<^verbatim>\<open>handleAutoVerify\<close> in the \<^verbatim>\<open>Dashboard\<close> variant,
  which fire seconds after the render that created them, keep the lists of that render
  apart from the state they write to.

  JavaScript numbers that hold amounts, counters and millisecond timestamps are
  integers here.  One run of a handler reads the clock once: every \<^verbatim>\<open>Date.now()\<close> of
  the run is the parameter \<open>now\<close>, and every formatted \<^verbatim>\<open>new Date()\<close> string is the
  parameter \<open>date\<close>.  An identifier built by a template literal such as
  \<^verbatim>\<open>`n${Date.now()}`\<close> is kept as the pair of its prefix and the number; a message
  or a ledger detail built by a template literal is kept as a constructor that
  carries the interpolated values.
\<close>

datatype PaymentStatus = unpaid | pending | confirmed | expired | verifying | failed | disputed

record BankAccount =
  bank_name :: string
  bank_number :: string
  bank_ifsc :: string

record Payment =
  pay_id :: string
  pay_title :: string
  pay_amount :: int
  pay_description :: string
  pay_receiverContact :: string
  pay_type :: string
  pay_iconClass :: string
  pay_status :: PaymentStatus
  pay_transactionId :: string
  pay_proof :: "string option"
  pay_qrCodeUrl :: string
  pay_bankAccount :: BankAccount
  pay_upiId :: string
  pay_usdtAddress :: string
  pay_assignedTimestamp :: "int option"
  pay_receiverId :: string
  pay_uniqueUsdtAmount :: "real option"

datatype TxDetails =
    PaymentFrom string
  | AutoVerified string
  | PendingMatchPaidOut int
  | DetailsText string

record Transaction =
  tx_date :: string
  tx_type :: string
  tx_details :: TxDetails
  tx_amount :: int
  tx_status :: string

record Confirmation =
  conf_id :: "string \<times> int"
  conf_paymentId :: "string option"
  conf_senderName :: string
  conf_amount :: int
  conf_transactionId :: string
  conf_proof :: "string option"
  conf_date :: string
  conf_type :: string
  conf_submittedTimestamp :: int
  conf_receiverId :: string
  conf_paymentTitle :: string

datatype UserStatus = active | pending_user | on_hold

record AdminUser =
  usr_id :: string
  usr_name :: string
  usr_profilePicture :: string
  usr_joinDate :: string
  usr_paymentsConfirmed :: int
  usr_totalPayments :: int
  usr_notes :: string
  usr_status :: UserStatus
  usr_transactions :: "Transaction list"

datatype NotificationType = income | referral | payment_confirmed | payment_received | system | error

datatype Message =
    QualifiedPayout int
  | NoQualifiedUsersFound
  | YouReceivedMatch int
  | UserReceivedMatch string
  | YouMissedMatch
  | PaymentApproved string
  | VerificationNotConfigured
  | VerificationFailed
  | MessageText string

record Notification =
  n_id :: "string \<times> int"
  n_type :: NotificationType
  n_message :: Message
  n_timestamp :: int
  n_isRead :: bool

datatype PairStatus = paid | pending_pair

record MatchedPair =
  pairNumber :: int
  leftUsers :: "string list"
  rightUsers :: "string list"
  pair_date :: string
  pair_amount :: int
  pair_status :: PairStatus

record QueueEntrant =
  q_id :: string
  q_name :: string
  q_profilePicture :: string
  q_joinTime :: string
  queuePosition :: int
  isQualified :: bool

record BinaryData =
  leftTeam :: "string list"
  rightTeam :: "string list"
  matchedPairs :: "MatchedPair list"
  pendingPairs :: "MatchedPair list"
  matchingQueue :: "QueueEntrant list"
  currentUserPosition :: int

record SystemConfig =
  referralAmount :: int
  binaryAmount :: int
  uplineAmount :: int
  adminFeeAmount :: int
  paymentTimerDuration :: int
  bscScanApiKey :: string
  cryptoReceivingAddress :: string
  enableCryptoVerification :: bool
  requiredConfirmations :: int

text \<open>
  The state the handlers read and write.  In \<^verbatim>\<open>Home.tsx\<close> each field is a
  \<^verbatim>\<open>useState\<close> cell (and \<open>prevIsQualifiedRef\<close> a \<^verbatim>\<open>useRef\<close> cell); in the
  \<^verbatim>\<open>Dashboard\<close> variant the fields are those of \<^verbatim>\<open>userData\<close>, and \<open>allUsers\<close>
  is not written.
\<close>

record AppState =
  paymentsData :: "Payment list"
  pendingConfirmations :: "Confirmation list"
  transactionsData :: "Transaction list"
  disputes :: "Confirmation list"
  notifications :: "Notification list"
  binaryData :: BinaryData
  allUsers :: "AdminUser list"
  prevIsQualifiedRef :: bool

section \<open>JavaScript array and value helpers\<close>

text \<open>\<^verbatim>\<open>Array.prototype.findIndex\<close>: the first index whose element satisfies the
  predicate, \<open>-1\<close> when there is none.\<close>

fun findIndex :: "('a \<Rightarrow> bool) \<Rightarrow> 'a list \<Rightarrow> int" where
  "findIndex P [] = -1"
| "findIndex P (x # xs) =
     (if P x then 0 else (let i = findIndex P xs in if i < 0 then -1 else i + 1))"

text \<open>\<^verbatim>\<open>Array.prototype.slice(start, end)\<close> and \<^verbatim>\<open>slice(start)\<close>: a negative
  index counts from the end, and indices are clamped to the array.\<close>

definition relIndex :: "nat \<Rightarrow> int \<Rightarrow> nat" where
  "relIndex len i = (if i < 0 then nat (max (int len + i) 0) else min (nat i) len)"

definition slice :: "'a list \<Rightarrow> int \<Rightarrow> int \<Rightarrow> 'a list" where
  "slice xs start end' =
     (let a = relIndex (length xs) start; b = relIndex (length xs) end'
      in drop a (take b xs))"

definition sliceFrom :: "'a list \<Rightarrow> int \<Rightarrow> 'a list" where
  "sliceFrom xs start = drop (relIndex (length xs) start) xs"

text \<open>\<^verbatim>\<open>xs.map((x, index) => f(x, index))\<close>.\<close>

definition mapIndexed :: "('a \<Rightarrow> int \<Rightarrow> 'b) \<Rightarrow> 'a list \<Rightarrow> 'b list" where
  "mapIndexed f xs = map (\<lambda>(index, x). f x (int index)) (enumerate 0 xs)"

text \<open>Truthiness of a string, of a nullable string and of a nullable number.\<close>

definition truthyStr :: "string \<Rightarrow> bool" where
  "truthyStr s = (s \<noteq> [])"

definition truthyStrOpt :: "string option \<Rightarrow> bool" where
  "truthyStrOpt s = (case s of None \<Rightarrow> False | Some t \<Rightarrow> t \<noteq> [])"

definition truthyNumOpt :: "int option \<Rightarrow> bool" where
  "truthyNumOpt t = (case t of None \<Rightarrow> False | Some n \<Rightarrow> n \<noteq> 0)"

text \<open>\<^verbatim>\<open>s.startsWith(prefix)\<close>.\<close>

definition startsWith :: "string \<Rightarrow> string \<Rightarrow> bool" where
  "startsWith s prefix = (take (length prefix) s = prefix)"

section \<open>The binary queue matcher\<close>

text \<open>The local constants of \<^verbatim>\<open>handleProcessBinaryQueue\<close>, as functions of the
  queue it copies.  They are the same in both variants.\<close>

definition firstQualifiedIndex :: "QueueEntrant list \<Rightarrow> int" where
  "firstQualifiedIndex queue = findIndex isQualified queue"

definition usersToRequeue :: "QueueEntrant list \<Rightarrow> QueueEntrant list" where
  "usersToRequeue queue = slice queue 0 (firstQualifiedIndex queue)"

definition remainingQueueAfterWinner :: "QueueEntrant list \<Rightarrow> QueueEntrant list" where
  "remainingQueueAfterWinner queue = sliceFrom queue (firstQualifiedIndex queue + 1)"

definition newQueue :: "QueueEntrant list \<Rightarrow> QueueEntrant list" where
  "newQueue queue = remainingQueueAfterWinner queue @ usersToRequeue queue"

definition updatedQueue :: "QueueEntrant list \<Rightarrow> QueueEntrant list" where
  "updatedQueue queue =
     mapIndexed (\<lambda>user index. user\<lparr>queuePosition := index + 1\<rparr>) (newQueue queue)"

text \<open>\<^verbatim>\<open>queue[firstQualifiedIndex]\<close>.  The handler reads it only after its guard
  found a qualified entrant, so the index is in range there.\<close>

definition winner :: "QueueEntrant list \<Rightarrow> QueueEntrant" where
  "winner queue = queue ! nat (firstQualifiedIndex queue)"

definition newMatch :: "SystemConfig \<Rightarrow> string \<Rightarrow> BinaryData \<Rightarrow> MatchedPair" where
  "newMatch systemConfig date prev =
     \<lparr> pairNumber = int (length (matchedPairs prev)) + int (length (pendingPairs prev)) + 1,
       leftUsers = [''System Match L''],
       rightUsers = [''System Match R''],
       pair_date = date,
       pair_amount = binaryAmount systemConfig,
       pair_status = paid \<rparr>"

definition mkNotification ::
  "string \<Rightarrow> int \<Rightarrow> NotificationType \<Rightarrow> Message \<Rightarrow> Notification" where
  "mkNotification prefix now ty msg =
     \<lparr> n_id = (prefix, now), n_type = ty, n_message = msg, n_timestamp = now, n_isRead = False \<rparr>"

text \<open>\<^verbatim>\<open>handleProcessBinaryQueue\<close> of \<^verbatim>\<open>Home.tsx\<close>.  The local participant is the
  entrant with the fixed id \<^verbatim>\<open>'bq_5'\<close>.\<close>

definition handleProcessBinaryQueue ::
  "SystemConfig \<Rightarrow> int \<Rightarrow> string \<Rightarrow> AppState \<Rightarrow> AppState" where
  "handleProcessBinaryQueue systemConfig now date st =
     (let prev = binaryData st; queue = matchingQueue prev in
      if \<not> list_ex isQualified queue then
        st\<lparr>notifications := mkNotification ''n'' now system NoQualifiedUsersFound # notifications st\<rparr>
      else
        let w = winner queue;
            m = newMatch systemConfig date prev;
            winnerMessage = (if q_id w = ''bq_5'' then YouReceivedMatch (pair_amount m)
                             else UserReceivedMatch (q_name w));
            newNotifications =
              mkNotification ''n_win_'' now income winnerMessage
              # map (\<lambda>user. mkNotification ''n_skip_'' now system YouMissedMatch)
                    (filter (\<lambda>user. q_id user = ''bq_5'') (usersToRequeue queue));
            currentUserNewPosition = findIndex (\<lambda>u. q_id u = ''bq_5'') (updatedQueue queue) + 1
        in st\<lparr>notifications := newNotifications @ notifications st,
               binaryData := prev
                 \<lparr>matchedPairs := (if q_id w = ''bq_5'' then matchedPairs prev @ [m]
                                   else matchedPairs prev),
                  matchingQueue := updatedQueue queue,
                  currentUserPosition := (if currentUserNewPosition > 0 then currentUserNewPosition
                                          else currentUserPosition prev)\<rparr>\<rparr>)"

text \<open>\<^verbatim>\<open>handleProcessBinaryQueue\<close> of the \<^verbatim>\<open>Dashboard\<close> variant.  The local
  participant is the entrant whose id is \<^verbatim>\<open>profile.id\<close>.\<close>

definition handleProcessBinaryQueue_Dashboard ::
  "string \<Rightarrow> SystemConfig \<Rightarrow> int \<Rightarrow> string \<Rightarrow> AppState \<Rightarrow> AppState" where
  "handleProcessBinaryQueue_Dashboard profileId systemConfig now date st =
     (let prev = binaryData st; queue = matchingQueue prev in
      if \<not> list_ex isQualified queue then
        st\<lparr>notifications := mkNotification ''n'' now system NoQualifiedUsersFound # notifications st\<rparr>
      else
        let w = winner queue;
            m = newMatch systemConfig date prev;
            isCurrentUserWinner = (q_id w = profileId);
            newNotifications =
              mkNotification ''n_win_'' now income (UserReceivedMatch (q_name w))
              # (if list_ex (\<lambda>u. q_id u = profileId) (usersToRequeue queue)
                 then [mkNotification ''n_skip_'' now system YouMissedMatch] else []);
            currentUserNewPosition = findIndex (\<lambda>u. q_id u = profileId) (updatedQueue queue) + 1
        in st\<lparr>notifications := newNotifications @ notifications st,
               binaryData := prev
                 \<lparr>matchedPairs := (if isCurrentUserWinner then matchedPairs prev @ [m]
                                   else matchedPairs prev),
                  matchingQueue := updatedQueue queue,
                  currentUserPosition := (if currentUserNewPosition > 0 then currentUserNewPosition
                                          else currentUserPosition prev)\<rparr>\<rparr>)"

section \<open>Qualification and the pending pairs\<close>

record Direct =
  d_date :: string
  d_name :: string
  d_position :: string
  d_amount :: int
  d_status :: string

definition hasLeftSponsor :: "Direct list \<Rightarrow> bool" where
  "hasLeftSponsor directs = list_ex (\<lambda>d. d_position d = ''left'' \<and> d_status d = ''paid'') directs"

definition hasRightSponsor :: "Direct list \<Rightarrow> bool" where
  "hasRightSponsor directs = list_ex (\<lambda>d. d_position d = ''right'' \<and> d_status d = ''paid'') directs"

definition isQualifiedForBinary :: "Direct list \<Rightarrow> bool" where
  "isQualifiedForBinary directs = (hasLeftSponsor directs \<and> hasRightSponsor directs)"

definition paidOutPairs :: "string \<Rightarrow> MatchedPair list \<Rightarrow> MatchedPair list" where
  "paidOutPairs date ps = map (\<lambda>p. p\<lparr>pair_status := paid, pair_date := date\<rparr>) ps"

definition newTransactions :: "string \<Rightarrow> MatchedPair list \<Rightarrow> Transaction list" where
  "newTransactions date ps =
     map (\<lambda>p. \<lparr> tx_date = date, tx_type = ''binary'',
                 tx_details = PendingMatchPaidOut (pairNumber p),
                 tx_amount = pair_amount p, tx_status = ''paid'' \<rparr>) ps"

definition totalPayout :: "MatchedPair list \<Rightarrow> int" where
  "totalPayout ps = foldl (\<lambda>sum p. sum + pair_amount p) 0 ps"

text \<open>The effect \<^verbatim>\<open>useEffect(..., [isQualifiedForBinary, binaryData.pendingPairs])\<close>:
  one run of its body, \<open>qualifiedNow\<close> being the current \<^verbatim>\<open>isQualifiedForBinary\<close>.  Both variants compute the
  same values; \<^verbatim>\<open>Home.tsx\<close> writes them with three setters, the \<^verbatim>\<open>Dashboard\<close>
  variant with one \<^verbatim>\<open>onUpdateUserData\<close>.\<close>

definition qualificationEffect :: "bool \<Rightarrow> int \<Rightarrow> string \<Rightarrow> AppState \<Rightarrow> AppState" where
  "qualificationEffect qualifiedNow now date st =
     (let prev = binaryData st;
          st' = (if qualifiedNow \<and> \<not> prevIsQualifiedRef st \<and> length (pendingPairs prev) > 0 then
                   st\<lparr>notifications :=
                        mkNotification ''n'' now income (QualifiedPayout (totalPayout (pendingPairs prev)))
                        # notifications st,
                      binaryData := prev
                        \<lparr>matchedPairs := matchedPairs prev @ paidOutPairs date (pendingPairs prev),
                         pendingPairs := []\<rparr>,
                      transactionsData :=
                        newTransactions date (paidOutPairs date (pendingPairs prev)) @ transactionsData st\<rparr>
                 else st)
      in st'\<lparr>prevIsQualifiedRef := qualifiedNow\<rparr>)"

section \<open>The payment lifecycle\<close>

definition PAYMENT_TIMER_DURATION :: int where
  "PAYMENT_TIMER_DURATION = 2 * 60 * 60 * 1000"

definition paymentTimerDurationMs :: "SystemConfig \<Rightarrow> int" where
  "paymentTimerDurationMs systemConfig = paymentTimerDuration systemConfig * 60 * 60 * 1000"

text \<open>The test of the payment-expiry sweep,
  \<^verbatim>\<open>p.status === 'unpaid' && p.assignedTimestamp && p.type !== 'admin'
    && Date.now() > p.assignedTimestamp + duration\<close>,
  and the element function of its \<^verbatim>\<open>map\<close>.\<close>

definition isExpiring :: "int \<Rightarrow> int \<Rightarrow> Payment \<Rightarrow> bool" where
  "isExpiring duration now p =
     (pay_status p = unpaid \<and> truthyNumOpt (pay_assignedTimestamp p) \<and> pay_type p \<noteq> ''admin''
      \<and> (case pay_assignedTimestamp p of None \<Rightarrow> False | Some t \<Rightarrow> now > t + duration))"

definition expirePayment :: "int \<Rightarrow> int \<Rightarrow> Payment \<Rightarrow> Payment" where
  "expirePayment duration now p = (if isExpiring duration now p then p\<lparr>pay_status := expired\<rparr> else p)"

text \<open>The \<^verbatim>\<open>timerInterval\<close> callback of \<^verbatim>\<open>Home.tsx\<close>: the new list is stored only
  when some payment changed.\<close>

definition timerInterval :: "int \<Rightarrow> AppState \<Rightarrow> AppState" where
  "timerInterval now st =
     (let prevPayments = paymentsData st;
          hasChanged = list_ex (isExpiring PAYMENT_TIMER_DURATION now) prevPayments;
          updatedPayments = map (expirePayment PAYMENT_TIMER_DURATION now) prevPayments
      in st\<lparr>paymentsData := (if hasChanged then updatedPayments else prevPayments)\<rparr>)"

text \<open>The \<^verbatim>\<open>timerInterval\<close> callback of the \<^verbatim>\<open>Dashboard\<close> variant: the new list is
  written back only when it differs from the old one.\<close>

definition timerInterval_Dashboard :: "SystemConfig \<Rightarrow> int \<Rightarrow> AppState \<Rightarrow> AppState" where
  "timerInterval_Dashboard systemConfig now st =
     (let updatedPayments = map (expirePayment (paymentTimerDurationMs systemConfig) now) (paymentsData st)
      in if updatedPayments \<noteq> paymentsData st then st\<lparr>paymentsData := updatedPayments\<rparr> else st)"

text \<open>\<^verbatim>\<open>prev.map(p => p.id === id ? f(p) : p)\<close>, the update every handler uses.\<close>

definition mapPaymentWithId :: "string \<Rightarrow> (Payment \<Rightarrow> Payment) \<Rightarrow> Payment list \<Rightarrow> Payment list" where
  "mapPaymentWithId i f ps = map (\<lambda>p. if pay_id p = i then f p else p) ps"

text \<open>The object \<^verbatim>\<open>{ ...p, status: 'unpaid', transactionId: '', proof: null,
  assignedTimestamp: Date.now() }\<close>.\<close>

definition resetPayment :: "int \<Rightarrow> Payment \<Rightarrow> Payment" where
  "resetPayment now p =
     p\<lparr>pay_status := unpaid, pay_transactionId := [], pay_proof := None,
       pay_assignedTimestamp := Some now\<rparr>"

subsection \<open>The confirmation-expiry sweep\<close>

definition expiredConfirmations :: "int \<Rightarrow> int \<Rightarrow> Confirmation list \<Rightarrow> Confirmation list" where
  "expiredConfirmations duration now cs = filter (\<lambda>c. now > conf_submittedTimestamp c + duration) cs"

text \<open>The body of the \<^verbatim>\<open>for\<close> loop of \<^verbatim>\<open>Home.tsx\<close> over the expired confirmations.
  Its state is the copy \<open>newPayments\<close>, the list \<open>newDisputes\<close> and the set
  \<open>usersToPutOnHold\<close>.\<close>

definition sweepStep ::
  "int \<Rightarrow> Confirmation \<Rightarrow> Payment list \<times> Confirmation list \<times> string set
   \<Rightarrow> Payment list \<times> Confirmation list \<times> string set" where
  "sweepStep now confirmation acc =
     (case acc of (newPayments, newDisputes, usersToPutOnHold) \<Rightarrow>
        let paymentIndex = findIndex (\<lambda>p. Some (pay_id p) = conf_paymentId confirmation) newPayments in
        if paymentIndex = -1 then acc
        else
          let payment = newPayments ! nat paymentIndex;
              isMatrixPayment = startsWith (pay_type payment) ''upline''
          in if isMatrixPayment then
               (newPayments[nat paymentIndex := payment\<lparr>pay_status := disputed\<rparr>],
                newDisputes @ [confirmation],
                insert (pay_receiverId payment) usersToPutOnHold)
             else
               (newPayments[nat paymentIndex := resetPayment now payment], newDisputes, usersToPutOnHold))"

fun sweepLoop ::
  "int \<Rightarrow> Confirmation list \<Rightarrow> Payment list \<times> Confirmation list \<times> string set
   \<Rightarrow> Payment list \<times> Confirmation list \<times> string set" where
  "sweepLoop now [] acc = acc"
| "sweepLoop now (confirmation # rest) acc = sweepLoop now rest (sweepStep now confirmation acc)"

text \<open>The \<^verbatim>\<open>confirmationTimerInterval\<close> callback of \<^verbatim>\<open>Home.tsx\<close>.\<close>

definition confirmationTimerInterval :: "int \<Rightarrow> AppState \<Rightarrow> AppState" where
  "confirmationTimerInterval now st =
     (let expiredCs = expiredConfirmations PAYMENT_TIMER_DURATION now (pendingConfirmations st) in
      if length expiredCs > 0 then
        let expiredConfirmationIds = map conf_id expiredCs in
        case sweepLoop now expiredCs (paymentsData st, [], {}) of
          (newPayments, newDisputes, usersToPutOnHold) \<Rightarrow>
            st\<lparr>pendingConfirmations :=
                 filter (\<lambda>c. conf_id c \<notin> set expiredConfirmationIds) (pendingConfirmations st),
               paymentsData := newPayments,
               disputes := (if length newDisputes > 0 then disputes st @ newDisputes else disputes st),
               allUsers := (if length newDisputes > 0
                            then map (\<lambda>u. if usr_id u \<in> usersToPutOnHold then u\<lparr>usr_status := on_hold\<rparr> else u)
                                   (allUsers st)
                            else allUsers st)\<rparr>
      else st)"

text \<open>The \<^verbatim>\<open>confirmationTimerInterval\<close> callback of the \<^verbatim>\<open>Dashboard\<close> variant: it
  maps over the payments, and pushes the first expired confirmation of a payment to the
  disputes.\<close>

definition expiredConfFor :: "Confirmation list \<Rightarrow> Payment \<Rightarrow> Confirmation option" where
  "expiredConfFor expiredCs p = find (\<lambda>ec. conf_paymentId ec = Some (pay_id p)) expiredCs"

definition confirmationTimerInterval_Dashboard :: "SystemConfig \<Rightarrow> int \<Rightarrow> AppState \<Rightarrow> AppState" where
  "confirmationTimerInterval_Dashboard systemConfig now st =
     (let expiredCs = expiredConfirmations (paymentTimerDurationMs systemConfig) now (pendingConfirmations st) in
      if length expiredCs > 0 then
        let expiredIds = map conf_id expiredCs;
            updatedConfirmations = filter (\<lambda>c. conf_id c \<notin> set expiredIds) (pendingConfirmations st);
            newDisputes = disputes st @ List.map_filter (expiredConfFor expiredCs) (paymentsData st);
            updatedPayments =
              map (\<lambda>p. case expiredConfFor expiredCs p of
                          Some expiredConf \<Rightarrow> p\<lparr>pay_status := disputed\<rparr>
                        | None \<Rightarrow> p) (paymentsData st)
        in st\<lparr>pendingConfirmations := updatedConfirmations,
              paymentsData := updatedPayments,
              disputes := newDisputes\<rparr>
      else st)"

subsection \<open>Submitting a payment\<close>

text \<open>\<^verbatim>\<open>handleSubmitPayment\<close>, the same in both variants.  \<open>senderName\<close> is
  \<^verbatim>\<open>profile.name\<close>.\<close>

definition newConfirmation :: "string \<Rightarrow> int \<Rightarrow> string \<Rightarrow> Payment \<Rightarrow> Confirmation" where
  "newConfirmation senderName now date payment =
     \<lparr> conf_id = (''conf_'', now),
       conf_paymentId = Some (pay_id payment),
       conf_senderName = senderName,
       conf_amount = pay_amount payment,
       conf_transactionId = pay_transactionId payment,
       conf_proof = pay_proof payment,
       conf_date = date,
       conf_type = pay_title payment,
       conf_submittedTimestamp = now,
       conf_receiverId = pay_receiverId payment,
       conf_paymentTitle = pay_title payment \<rparr>"

definition handleSubmitPayment :: "string \<Rightarrow> int \<Rightarrow> string \<Rightarrow> Payment \<Rightarrow> AppState \<Rightarrow> AppState" where
  "handleSubmitPayment senderName now date payment st =
     st\<lparr>paymentsData := mapPaymentWithId (pay_id payment) (\<lambda>p. p\<lparr>pay_status := pending\<rparr>) (paymentsData st),
        pendingConfirmations := pendingConfirmations st @ [newConfirmation senderName now date payment]\<rparr>"

text \<open>The submit button of \<^verbatim>\<open>PaymentCard\<close>.  The form that holds it is rendered only
  while \<^verbatim>\<open>payment.status === 'unpaid'\<close>; the button is disabled unless
  \<^verbatim>\<open>canSubmit\<close>; a click calls \<^verbatim>\<open>onAutoVerify\<close> for the crypto method and
  \<^verbatim>\<open>onSubmit\<close> for every other method.\<close>

definition isCrypto :: "string \<Rightarrow> bool" where
  "isCrypto activeMethod = (activeMethod = ''crypto'')"

definition canSubmit :: "string \<Rightarrow> Payment \<Rightarrow> bool" where
  "canSubmit activeMethod payment =
     (if isCrypto activeMethod then truthyStr (pay_transactionId payment)
      else truthyStr (pay_transactionId payment) \<and> truthyStrOpt (pay_proof payment))"

datatype CardAction = NoAction | OnAutoVerify Payment | OnSubmit Payment

definition submitButtonClick :: "string \<Rightarrow> Payment \<Rightarrow> CardAction" where
  "submitButtonClick activeMethod payment =
     (if pay_status payment = unpaid \<and> canSubmit activeMethod payment then
        (if isCrypto activeMethod then OnAutoVerify payment else OnSubmit payment)
      else NoAction)"

text \<open>\<^verbatim>\<open>JoinTab\<close> passes \<^verbatim>\<open>handleSubmitClick\<close> as \<^verbatim>\<open>onSubmit\<close>: it stores the payment in
  \<^verbatim>\<open>modalPayment\<close>, and the modal's confirm button runs \<^verbatim>\<open>handleConfirmSubmit\<close>.\<close>

definition handleSubmitClick :: "Payment \<Rightarrow> Payment option" where
  "handleSubmitClick payment = Some payment"

definition handleConfirmSubmit ::
  "string \<Rightarrow> int \<Rightarrow> string \<Rightarrow> Payment option \<Rightarrow> AppState \<Rightarrow> AppState \<times> Payment option" where
  "handleConfirmSubmit senderName now date modalPayment st =
     (case modalPayment of
        Some p \<Rightarrow> (handleSubmitPayment senderName now date p st, None)
      | None \<Rightarrow> (st, modalPayment))"

subsection \<open>Rejecting a confirmation\<close>

text \<open>\<^verbatim>\<open>handleRejectPayment\<close>, the same in both variants.\<close>

definition handleRejectPayment :: "string \<times> int \<Rightarrow> int \<Rightarrow> AppState \<Rightarrow> AppState" where
  "handleRejectPayment confirmationId now st =
     (case find (\<lambda>c. conf_id c = confirmationId) (pendingConfirmations st) of
        None \<Rightarrow> st
      | Some confirmation \<Rightarrow>
          st\<lparr>pendingConfirmations := filter (\<lambda>c. conf_id c \<noteq> confirmationId) (pendingConfirmations st),
             paymentsData := map (\<lambda>p. if Some (pay_id p) = conf_paymentId confirmation
                                       then resetPayment now p else p) (paymentsData st)\<rparr>)"

subsection \<open>Crypto auto-verification\<close>

text \<open>
  \<^verbatim>\<open>setTimeout(callback, delay)\<close> is a value: the delay and a constructor for the
  callback with what its closure holds.  A handler returns the timers it starts;
  \<open>runTimer\<close> runs the callback of a timer that fired.  \<^verbatim>\<open>Math.random() > 0.1\<close> is
  the parameter \<open>isSuccess\<close>.  A callback of the \<^verbatim>\<open>Dashboard\<close> variant holds the
  \<^verbatim>\<open>userData\<close> lists of the render in which \<^verbatim>\<open>handleAutoVerify\<close> was called.
\<close>

datatype TimerCallback =
    Settle Payment
  | ResetFailed Payment
  | Settle_Dashboard Payment AppState
  | ErrorReset_Dashboard "Notification list" "Payment list"

type_synonym Timer = "int \<times> TimerCallback"

definition autoVerifiedTransaction :: "string \<Rightarrow> Payment \<Rightarrow> Transaction" where
  "autoVerifiedTransaction date payment =
     \<lparr> tx_date = date, tx_type = pay_type payment, tx_details = AutoVerified (pay_title payment),
       tx_amount = pay_amount payment, tx_status = ''confirmed'' \<rparr>"

text \<open>\<^verbatim>\<open>handleAutoVerify\<close> of \<^verbatim>\<open>Home.tsx\<close>.\<close>

definition handleAutoVerify :: "Payment \<Rightarrow> AppState \<Rightarrow> AppState \<times> Timer list" where
  "handleAutoVerify payment st =
     (st\<lparr>paymentsData := mapPaymentWithId (pay_id payment) (\<lambda>p. p\<lparr>pay_status := verifying\<rparr>) (paymentsData st)\<rparr>,
      [(3000, Settle payment)])"

text \<open>\<^verbatim>\<open>addErrorNotification\<close> of the \<^verbatim>\<open>Dashboard\<close> variant; \<open>closure\<close> is the
  \<^verbatim>\<open>userData\<close> of the render.\<close>

definition addErrorNotification :: "Message \<Rightarrow> int \<Rightarrow> Payment \<Rightarrow> AppState \<Rightarrow> Timer" where
  "addErrorNotification message now payment closure =
     (3000, ErrorReset_Dashboard
        (mkNotification ''n_err_'' now error message # notifications closure)
        (mapPaymentWithId (pay_id payment) (\<lambda>p. p\<lparr>pay_status := unpaid, pay_transactionId := []\<rparr>)
           (paymentsData closure)))"

text \<open>\<^verbatim>\<open>handleAutoVerify\<close> of the \<^verbatim>\<open>Dashboard\<close> variant.\<close>

definition handleAutoVerify_Dashboard ::
  "SystemConfig \<Rightarrow> int \<Rightarrow> Payment \<Rightarrow> AppState \<Rightarrow> AppState \<times> Timer list" where
  "handleAutoVerify_Dashboard systemConfig now payment st =
     (if \<not> enableCryptoVerification systemConfig \<or> \<not> truthyStr (bscScanApiKey systemConfig)
         \<or> \<not> truthyStr (cryptoReceivingAddress systemConfig) then
        (st, [addErrorNotification VerificationNotConfigured now payment st])
      else
        (st\<lparr>paymentsData := mapPaymentWithId (pay_id payment) (\<lambda>p. p\<lparr>pay_status := verifying\<rparr>) (paymentsData st)\<rparr>,
         [(3000, Settle_Dashboard payment st)]))"

text \<open>The callbacks: \<open>cur\<close> is the state when the timer fires.\<close>

fun runTimer :: "bool \<Rightarrow> int \<Rightarrow> string \<Rightarrow> TimerCallback \<Rightarrow> AppState \<Rightarrow> AppState \<times> Timer list" where
  "runTimer isSuccess now date (Settle payment) cur =
     (if isSuccess then
        (cur\<lparr>paymentsData := mapPaymentWithId (pay_id payment) (\<lambda>p. p\<lparr>pay_status := confirmed\<rparr>) (paymentsData cur),
             transactionsData := autoVerifiedTransaction date payment # transactionsData cur\<rparr>, [])
      else
        (cur\<lparr>paymentsData := mapPaymentWithId (pay_id payment) (\<lambda>p. p\<lparr>pay_status := failed\<rparr>) (paymentsData cur)\<rparr>,
         [(3000, ResetFailed payment)]))"
| "runTimer isSuccess now date (ResetFailed payment) cur =
     (cur\<lparr>paymentsData :=
            mapPaymentWithId (pay_id payment) (\<lambda>p. p\<lparr>pay_status := unpaid, pay_transactionId := []\<rparr>)
              (paymentsData cur)\<rparr>, [])"
| "runTimer isSuccess now date (Settle_Dashboard payment closure) cur =
     (if isSuccess then
        (cur\<lparr>paymentsData := mapPaymentWithId (pay_id payment) (\<lambda>p. p\<lparr>pay_status := confirmed\<rparr>) (paymentsData closure),
             transactionsData := autoVerifiedTransaction date payment # transactionsData closure\<rparr>, [])
      else
        (cur, [addErrorNotification VerificationFailed now payment closure]))"
| "runTimer isSuccess now date (ErrorReset_Dashboard newNotifications newPayments) cur =
     (cur\<lparr>notifications := newNotifications, paymentsData := newPayments\<rparr>, [])"

section \<open>Example data\<close>

text \<open>Small concrete states on which the theorems below are instantiated.\<close>

definition mkEntrant :: "string \<Rightarrow> int \<Rightarrow> bool \<Rightarrow> QueueEntrant" where
  "mkEntrant i pos q =
     \<lparr> q_id = i, q_name = i, q_profilePicture = [], q_joinTime = [], queuePosition = pos, isQualified = q \<rparr>"

definition emptyBinaryData :: BinaryData where
  "emptyBinaryData =
     \<lparr> leftTeam = [], rightTeam = [], matchedPairs = [], pendingPairs = [], matchingQueue = [],
       currentUserPosition = 0 \<rparr>"

definition emptyState :: AppState where
  "emptyState =
     \<lparr> paymentsData = [], pendingConfirmations = [], transactionsData = [], disputes = [],
       notifications = [], binaryData = emptyBinaryData, allUsers = [], prevIsQualifiedRef = False \<rparr>"

definition exampleConfig :: SystemConfig where
  "exampleConfig =
     \<lparr> referralAmount = 1000, binaryAmount = 1000, uplineAmount = 500, adminFeeAmount = 200,
       paymentTimerDuration = 2, bscScanApiKey = ''key'', cryptoReceivingAddress = ''0xabc'',
       enableCryptoVerification = True, requiredConfirmations = 3 \<rparr>"

definition queueState :: "QueueEntrant list \<Rightarrow> int \<Rightarrow> AppState" where
  "queueState queue pos =
     emptyState\<lparr>binaryData := emptyBinaryData\<lparr>matchingQueue := queue, currentUserPosition := pos\<rparr>\<rparr>"

definition scenarioQueue :: "QueueEntrant list" where
  "scenarioQueue = [mkEntrant ''A'' 1 False, mkEntrant ''B'' 2 True, mkEntrant ''C'' 3 False]"

definition localQueue :: "QueueEntrant list" where
  "localQueue = [mkEntrant ''bq_5'' 1 False, mkEntrant ''bq_6'' 2 True, mkEntrant ''bq_7'' 3 False]"

definition localWinsQueue :: "QueueEntrant list" where
  "localWinsQueue = [mkEntrant ''bq_4'' 1 False, mkEntrant ''bq_5'' 2 True]"

text \<open>The predicate in which claim C10 is stated: \<open>pos\<close> is the 1-based position of the
  first entrant of \<open>queue\<close> whose id is \<open>localId\<close>, and that entrant's
  \<open>queuePosition\<close>.\<close>

definition positionOf :: "string \<Rightarrow> QueueEntrant list \<Rightarrow> int \<Rightarrow> bool" where
  "positionOf localId queue pos =
     (1 \<le> pos \<and> nat pos \<le> length queue
      \<and> q_id (queue ! (nat pos - 1)) = localId
      \<and> queuePosition (queue ! (nat pos - 1)) = pos
      \<and> list_all (\<lambda>j. q_id (queue ! j) \<noteq> localId) [0..<nat pos - 1])"

definition emptyBank :: BankAccount where
  "emptyBank = \<lparr> bank_name = [], bank_number = [], bank_ifsc = [] \<rparr>"

definition mkPayment ::
  "string \<Rightarrow> string \<Rightarrow> PaymentStatus \<Rightarrow> string \<Rightarrow> string option \<Rightarrow> int option \<Rightarrow> Payment" where
  "mkPayment i ty status txid proof ts =
     \<lparr> pay_id = i, pay_title = i, pay_amount = 1000, pay_description = [], pay_receiverContact = [],
       pay_type = ty, pay_iconClass = [], pay_status = status, pay_transactionId = txid,
       pay_proof = proof, pay_qrCodeUrl = [], pay_bankAccount = emptyBank, pay_upiId = [],
       pay_usdtAddress = [], pay_assignedTimestamp = ts, pay_receiverId = ''usr_01'',
       pay_uniqueUsdtAmount = None \<rparr>"

definition paymentsState :: "Payment list \<Rightarrow> AppState" where
  "paymentsState ps = emptyState\<lparr>paymentsData := ps\<rparr>"

text \<open>JavaScript's conversion of a nullable number in an addition: \<^verbatim>\<open>null + d\<close> is \<open>d\<close>.\<close>

definition toNumber :: "int option \<Rightarrow> int" where
  "toNumber t = (case t of None \<Rightarrow> 0 | Some n \<Rightarrow> n)"

text \<open>The predicate in which claim C4 is stated, for one sweep of the list \<open>ps\<close> that
  stored \<open>ps'\<close>: a payment is due when it is unpaid, not of type \<^verbatim>\<open>'admin'\<close>, and its
  \<open>assignedTimestamp\<close> is set, not zero and more than \<open>duration\<close> before \<open>now\<close>.  A due
  payment is stored with status \<open>expired\<close> and nothing else changed, every other payment
  as it was.\<close>

definition expiresExactly :: "int \<Rightarrow> int \<Rightarrow> Payment list \<Rightarrow> Payment list \<Rightarrow> bool" where
  "expiresExactly duration now ps ps' =
     (length ps' = length ps
      \<and> list_all (\<lambda>i.
           let p = ps ! i; p' = ps' ! i;
               due = (pay_status p = unpaid \<and> pay_type p \<noteq> ''admin''
                      \<and> (case pay_assignedTimestamp p of
                            None \<Rightarrow> False
                          | Some t \<Rightarrow> t \<noteq> 0 \<and> now > t + duration))
           in (if due then p' = p\<lparr>pay_status := expired\<rparr> else p' = p)
              \<and> ((pay_status p \<noteq> expired \<and> pay_status p' = expired) = due)
              \<and> (pay_type p = ''admin'' \<longrightarrow> p' = p)
              \<and> (pay_status p \<noteq> unpaid \<longrightarrow> p' = p))
         [0..<length ps])"

definition mkConfirmation :: "int \<Rightarrow> string option \<Rightarrow> int \<Rightarrow> Confirmation" where
  "mkConfirmation n paymentId submitted =
     \<lparr> conf_id = (''conf_'', n), conf_paymentId = paymentId, conf_senderName = ''John Doe'',
       conf_amount = 1000, conf_transactionId = ''T1'', conf_proof = Some ''proof.png'',
       conf_date = [], conf_type = [], conf_submittedTimestamp = submitted,
       conf_receiverId = ''usr_01'', conf_paymentTitle = [] \<rparr>"

definition rejectState :: AppState where
  "rejectState =
     emptyState
       \<lparr>paymentsData := [mkPayment ''pay_ref'' ''referral'' pending ''T1'' (Some ''proof.png'') (Some 100),
                         mkPayment ''pay_bin'' ''binary'' confirmed ''T2'' (Some ''proof2.png'') (Some 100)],
        pendingConfirmations := [mkConfirmation 200 (Some ''pay_ref'') 200]\<rparr>"

definition unpaidReferral :: Payment where
  "unpaidReferral = mkPayment ''pay_ref'' ''referral'' unpaid ''T1'' (Some ''proof.png'') (Some 12800000)"

definition mkPair :: "int \<Rightarrow> int \<Rightarrow> PairStatus \<Rightarrow> MatchedPair" where
  "mkPair n amount status =
     \<lparr> pairNumber = n, leftUsers = [''User L''], rightUsers = [''User R''],
       pair_date = ''2024-02-10 18:00'', pair_amount = amount, pair_status = status \<rparr>"

definition pendingState :: AppState where
  "pendingState =
     emptyState\<lparr>binaryData := emptyBinaryData
       \<lparr>matchedPairs := [mkPair 1 1000 paid],
        pendingPairs := [mkPair 2 1000 pending_pair, mkPair 3 500 pending_pair]\<rparr>\<rparr>"

definition mkUser :: "string \<Rightarrow> UserStatus \<Rightarrow> AdminUser" where
  "mkUser i status =
     \<lparr> usr_id = i, usr_name = i, usr_profilePicture = [], usr_joinDate = [], usr_paymentsConfirmed = 0,
       usr_totalPayments = 8, usr_notes = [], usr_status = status, usr_transactions = [] \<rparr>"

definition sweepState :: AppState where
  "sweepState =
     emptyState
       \<lparr>paymentsData := [mkPayment ''pay_ref'' ''referral'' pending ''T1'' (Some ''proof.png'') (Some 100),
                         mkPayment ''pay_up1'' ''upline1'' pending ''T1'' (Some ''proof.png'') (Some 100)],
        pendingConfirmations := [mkConfirmation 200 (Some ''pay_ref'') 200,
                                 mkConfirmation 201 (Some ''pay_up1'') 201],
        allUsers := [mkUser ''usr_01'' active]\<rparr>"

definition cryptoPayment :: Payment where
  "cryptoPayment = mkPayment ''pay_bin'' ''binary'' unpaid ''0xhash'' None (Some 100)"

text \<open>What the loop of \<^verbatim>\<open>Home.tsx\<close> makes of a payment an expired confirmation names.\<close>

definition sweptPayment :: "int \<Rightarrow> Payment \<Rightarrow> Payment" where
  "sweptPayment now p =
     (if startsWith (pay_type p) ''upline'' then p\<lparr>pay_status := disputed\<rparr> else resetPayment now p)"

definition paymentIndex :: "Payment list \<Rightarrow> Confirmation \<Rightarrow> int" where
  "paymentIndex ps c = findIndex (\<lambda>p. Some (pay_id p) = conf_paymentId c) ps"

definition isMatrixConfirmation :: "Payment list \<Rightarrow> Confirmation \<Rightarrow> bool" where
  "isMatrixConfirmation ps c =
     (0 \<le> paymentIndex ps c \<and> startsWith (pay_type (ps ! nat (paymentIndex ps c))) ''upline'')"

definition sweptPayments :: "int \<Rightarrow> Payment list \<Rightarrow> nat set \<Rightarrow> Payment list" where
  "sweptPayments now ps S = map (\<lambda>(i, p). if i \<in> S then sweptPayment now p else p) (enumerate 0 ps)"

text \<open>The indices and the receivers the expired confirmations reach.\<close>

definition sweptIndices :: "Payment list \<Rightarrow> Confirmation list \<Rightarrow> nat set" where
  "sweptIndices ps cs = {nat (paymentIndex ps c) | c. c \<in> set cs \<and> 0 \<le> paymentIndex ps c}"

definition heldReceivers :: "Payment list \<Rightarrow> Confirmation list \<Rightarrow> string set" where
  "heldReceivers ps cs =
     {pay_receiverId (ps ! nat (paymentIndex ps c)) | c. c \<in> set cs \<and> isMatrixConfirmation ps c}"

section \<open>Properties of the queue matcher\<close>

lemma findIndex_neg_iff: "findIndex P xs < 0 \<longleftrightarrow> \<not> list_ex P xs"
  by (induction xs) (auto simp: Let_def)

lemma findIndex_first:
  "list_ex P xs \<Longrightarrow>
     nat (findIndex P xs) < length xs \<and> P (xs ! nat (findIndex P xs))
     \<and> (\<forall>j < nat (findIndex P xs). \<not> P (xs ! j))"
proof (induction xs)
  case Nil
  then show ?case by simp
next
  case (Cons x xs)
  show ?case
  proof (cases "P x")
    case True
    then show ?thesis by simp
  next
    case False
    with Cons.prems have ex: "list_ex P xs" by simp
    then have nn: "\<not> findIndex P xs < 0" by (simp add: findIndex_neg_iff)
    from nn have k: "nat (findIndex P (x # xs)) = Suc (nat (findIndex P xs))"
      using False by (simp add: Let_def nat_add_distrib)
    from Cons.IH[OF ex] show ?thesis
      unfolding k using False by (auto simp: less_Suc_eq_0_disj)
  qed
qed

lemma mapIndexed_length [simp]: "length (mapIndexed f xs) = length xs"
  by (simp add: mapIndexed_def)

lemma mapIndexed_nth: "i < length xs \<Longrightarrow> mapIndexed f xs ! i = f (xs ! i) (int i)"
  by (simp add: mapIndexed_def nth_enumerate_eq)

lemma relIndex_in_range: "0 \<le> i \<Longrightarrow> nat i \<le> len \<Longrightarrow> relIndex len i = nat i"
  by (simp add: relIndex_def)

lemma firstQualifiedIndex_range:
  assumes "list_ex isQualified queue"
  shows "0 \<le> firstQualifiedIndex queue" and "nat (firstQualifiedIndex queue) < length queue"
proof -
  show "0 \<le> firstQualifiedIndex queue"
    using assms findIndex_neg_iff[of isQualified queue] by (simp add: firstQualifiedIndex_def)
  show "nat (firstQualifiedIndex queue) < length queue"
    using findIndex_first[OF assms] by (simp add: firstQualifiedIndex_def)
qed

lemma usersToRequeue_take:
  assumes "list_ex isQualified queue"
  shows "usersToRequeue queue = take (nat (firstQualifiedIndex queue)) queue"
proof -
  note r = firstQualifiedIndex_range[OF assms]
  have a: "relIndex (length queue) 0 = 0" by (simp add: relIndex_def)
  have b: "relIndex (length queue) (firstQualifiedIndex queue) = nat (firstQualifiedIndex queue)"
    using r by (intro relIndex_in_range) simp_all
  show ?thesis unfolding usersToRequeue_def slice_def Let_def a b by simp
qed

lemma remaining_drop:
  assumes "list_ex isQualified queue"
  shows "remainingQueueAfterWinner queue = drop (Suc (nat (firstQualifiedIndex queue))) queue"
proof -
  note r = firstQualifiedIndex_range[OF assms]
  have "nat (firstQualifiedIndex queue + 1) = Suc (nat (firstQualifiedIndex queue))"
    using r(1) by simp
  moreover have "relIndex (length queue) (firstQualifiedIndex queue + 1)
      = nat (firstQualifiedIndex queue + 1)"
    using r by (intro relIndex_in_range) simp_all
  ultimately show ?thesis unfolding remainingQueueAfterWinner_def sliceFrom_def by simp
qed

lemma newQueue_rotation:
  "list_ex isQualified queue \<Longrightarrow>
   newQueue queue = drop (Suc (nat (firstQualifiedIndex queue))) queue
                    @ take (nat (firstQualifiedIndex queue)) queue"
  by (simp add: newQueue_def usersToRequeue_take remaining_drop)

lemma updatedQueue_length [simp]: "length (updatedQueue queue) = length (newQueue queue)"
  by (simp add: updatedQueue_def)

lemma updatedQueue_nth:
  "i < length (newQueue queue) \<Longrightarrow>
   updatedQueue queue ! i = (newQueue queue ! i)\<lparr>queuePosition := int i + 1\<rparr>"
  by (simp add: updatedQueue_def mapIndexed_nth)

lemma updatedQueue_ids: "map q_id (updatedQueue queue) = map q_id (newQueue queue)"
  by (rule nth_equalityI) (simp_all add: updatedQueue_nth)

lemma updatedQueue_positions:
  "map queuePosition (updatedQueue queue) = map int [1..<Suc (length (newQueue queue))]"
  by (rule nth_equalityI) (simp_all add: updatedQueue_nth nth_upt del: upt_Suc)

lemma newQueue_length:
  "list_ex isQualified queue \<Longrightarrow> length (newQueue queue) = length queue - 1"
  using firstQualifiedIndex_range[of queue] by (simp add: newQueue_rotation)

lemma newQueue_ids_mset:
  assumes "list_ex isQualified queue"
  shows "mset (map q_id (newQueue queue)) = mset (map q_id queue) - {#q_id (winner queue)#}"
proof -
  let ?k = "nat (firstQualifiedIndex queue)"
  have k: "?k < length queue" by (rule firstQualifiedIndex_range[OF assms])
  have "queue = take ?k queue @ queue ! ?k # drop (Suc ?k) queue"
    using k by (simp add: id_take_nth_drop)
  then have "mset (map q_id queue)
      = mset (map q_id (take ?k queue)) + {#q_id (queue ! ?k)#} + mset (map q_id (drop (Suc ?k) queue))"
    by (metis map_append list.simps(9) mset.simps(2) mset_append union_mset_add_mset_left union_mset_add_mset_right add.right_neutral)
  then show ?thesis
    by (simp add: newQueue_rotation[OF assms] winner_def)
qed


lemma handle_queue_Home:
  "list_ex isQualified (matchingQueue (binaryData st)) \<Longrightarrow>
   matchingQueue (binaryData (handleProcessBinaryQueue systemConfig now date st))
     = updatedQueue (matchingQueue (binaryData st))"
  by (simp add: handleProcessBinaryQueue_def Let_def)

lemma handle_queue_Dashboard:
  "list_ex isQualified (matchingQueue (binaryData st)) \<Longrightarrow>
   matchingQueue (binaryData (handleProcessBinaryQueue_Dashboard profileId systemConfig now date st))
     = updatedQueue (matchingQueue (binaryData st))"
  by (simp add: handleProcessBinaryQueue_Dashboard_def Let_def)




lemma handle_noQualified_Home:
  "\<not> list_ex isQualified (matchingQueue (binaryData st)) \<Longrightarrow>
   binaryData (handleProcessBinaryQueue systemConfig now date st) = binaryData st"
  by (simp add: handleProcessBinaryQueue_def Let_def)

lemma handle_noQualified_Dashboard:
  "\<not> list_ex isQualified (matchingQueue (binaryData st)) \<Longrightarrow>
   binaryData (handleProcessBinaryQueue_Dashboard profileId systemConfig now date st) = binaryData st"
  by (simp add: handleProcessBinaryQueue_Dashboard_def Let_def)

lemma handle_winner_message_Home:
  "list_ex isQualified (matchingQueue (binaryData st)) \<Longrightarrow>
   n_message (hd (notifications (handleProcessBinaryQueue systemConfig now date st)))
     = (if q_id (winner (matchingQueue (binaryData st))) = ''bq_5''
        then YouReceivedMatch (binaryAmount systemConfig)
        else UserReceivedMatch (q_name (winner (matchingQueue (binaryData st)))))"
  by (simp add: handleProcessBinaryQueue_def Let_def mkNotification_def newMatch_def)

lemma handle_winner_message_Dashboard:
  "list_ex isQualified (matchingQueue (binaryData st)) \<Longrightarrow>
   n_message (hd (notifications (handleProcessBinaryQueue_Dashboard profileId systemConfig now date st)))
     = UserReceivedMatch (q_name (winner (matchingQueue (binaryData st))))"
  by (simp add: handleProcessBinaryQueue_Dashboard_def Let_def mkNotification_def)

lemma winner_absent_if_distinct:
  assumes "list_ex isQualified queue" and "distinct (map q_id queue)"
  shows "q_id (winner queue) \<notin> set (map q_id (updatedQueue queue))"
proof -
  let ?k = "nat (firstQualifiedIndex queue)"
  have k: "?k < length queue" by (rule firstQualifiedIndex_range[OF assms(1)])
  have split: "map q_id queue
      = map q_id (take ?k queue) @ q_id (queue ! ?k) # map q_id (drop (Suc ?k) queue)"
    using k by (metis id_take_nth_drop list.simps(9) map_append)
  have "distinct (map q_id (take ?k queue) @ q_id (queue ! ?k) # map q_id (drop (Suc ?k) queue))"
    using assms(2) split by simp
  then have "q_id (queue ! ?k) \<notin> set (map q_id (take ?k queue))"
    and "q_id (queue ! ?k) \<notin> set (map q_id (drop (Suc ?k) queue))"
    by auto
  then show ?thesis
    by (simp add: updatedQueue_ids newQueue_rotation[OF assms(1)] winner_def)
qed

text \<open>
  Claim C1.  Whenever the queue holds a qualified entrant, \<^verbatim>\<open>handleProcessBinaryQueue\<close>
  (in both variants) picks as winner the entrant at the smallest index \<open>k\<close> whose
  \<open>isQualified\<close> is true, so every entrant before \<open>k\<close> is unqualified, and names it
  in the income notification.  The stored queue is the entrants after \<open>k\<close> followed by
  the entrants before \<open>k\<close>, in their old relative order and with nothing changed but
  \<open>queuePosition\<close>, which is the index plus one for every entrant.  The entrant at
  \<open>k\<close> is left out: the new queue is one shorter, and when the ids of the queue are
  pairwise different the winner's id is not in it.
\<close>

theorem processQueue_awards_first_qualified_and_rotates:
  assumes "\<exists>e \<in> set (matchingQueue (binaryData st)). isQualified e"
  shows "let queue = matchingQueue (binaryData st);
             k = nat (firstQualifiedIndex queue);
             rotated = drop (Suc k) queue @ take k queue;
             renumbered = mapIndexed (\<lambda>user index. user\<lparr>queuePosition := index + 1\<rparr>) rotated;
             st1 = handleProcessBinaryQueue systemConfig now date st;
             st2 = handleProcessBinaryQueue_Dashboard profileId systemConfig now date st
         in k < length queue \<and> isQualified (queue ! k) \<and> (\<forall>j<k. \<not> isQualified (queue ! j))
            \<and> winner queue = queue ! k
            \<and> n_message (hd (notifications st1))
                = (if q_id (queue ! k) = ''bq_5'' then YouReceivedMatch (binaryAmount systemConfig)
                   else UserReceivedMatch (q_name (queue ! k)))
            \<and> n_message (hd (notifications st2)) = UserReceivedMatch (q_name (queue ! k))
            \<and> matchingQueue (binaryData st1) = renumbered
            \<and> matchingQueue (binaryData st2) = renumbered
            \<and> length renumbered = length queue - 1
            \<and> (\<forall>i < length renumbered. renumbered ! i = (rotated ! i)\<lparr>queuePosition := int i + 1\<rparr>)
            \<and> (distinct (map q_id queue) \<longrightarrow> q_id (queue ! k) \<notin> set (map q_id renumbered))"
proof -
  let ?queue = "matchingQueue (binaryData st)"
  let ?k = "nat (firstQualifiedIndex ?queue)"
  let ?rotated = "drop (Suc ?k) ?queue @ take ?k ?queue"
  let ?renumbered = "mapIndexed (\<lambda>user index. user\<lparr>queuePosition := index + 1\<rparr>) ?rotated"
  have ex: "list_ex isQualified ?queue" using assms by (simp add: list_ex_iff)
  have upd: "updatedQueue ?queue = ?renumbered"
    by (simp add: updatedQueue_def newQueue_rotation[OF ex])
  have w: "winner ?queue = ?queue ! ?k" by (simp add: winner_def)
  have c1: "?k < length ?queue \<and> isQualified (?queue ! ?k) \<and> (\<forall>j<?k. \<not> isQualified (?queue ! j))"
    using findIndex_first[OF ex] by (simp add: firstQualifiedIndex_def)
  have c2: "n_message (hd (notifications (handleProcessBinaryQueue systemConfig now date st)))
      = (if q_id (?queue ! ?k) = ''bq_5'' then YouReceivedMatch (binaryAmount systemConfig)
         else UserReceivedMatch (q_name (?queue ! ?k)))"
    using handle_winner_message_Home[OF ex] unfolding w .
  have c3: "n_message (hd (notifications
        (handleProcessBinaryQueue_Dashboard profileId systemConfig now date st)))
      = UserReceivedMatch (q_name (?queue ! ?k))"
    using handle_winner_message_Dashboard[OF ex] unfolding w .
  have c4: "matchingQueue (binaryData (handleProcessBinaryQueue systemConfig now date st)) = ?renumbered"
    using handle_queue_Home[OF ex] unfolding upd .
  have c5: "matchingQueue (binaryData
        (handleProcessBinaryQueue_Dashboard profileId systemConfig now date st)) = ?renumbered"
    using handle_queue_Dashboard[OF ex] unfolding upd .
  have c6: "length ?renumbered = length ?queue - 1"
    using c1 by simp
  have c7: "\<forall>i < length ?renumbered. ?renumbered ! i = (?rotated ! i)\<lparr>queuePosition := int i + 1\<rparr>"
    by (simp add: mapIndexed_nth)
  have c8: "distinct (map q_id ?queue) \<longrightarrow> q_id (?queue ! ?k) \<notin> set (map q_id ?renumbered)"
    using winner_absent_if_distinct[OF ex] unfolding upd w by blast
  show ?thesis
    unfolding Let_def using c1 w c2 c3 c4 c5 c6 c7 c8 by blast
qed

theorem processQueue_awards_first_qualified_and_rotates_witness:
  "(\<exists>e \<in> set (matchingQueue (binaryData (queueState scenarioQueue 12))). isQualified e)
   \<and> winner scenarioQueue = mkEntrant ''B'' 2 True
   \<and> matchingQueue (binaryData (handleProcessBinaryQueue exampleConfig 5 ''d'' (queueState scenarioQueue 12)))
       = [mkEntrant ''C'' 1 False, mkEntrant ''A'' 2 False]"
proof -
  have h: "\<exists>e \<in> set (matchingQueue (binaryData (queueState scenarioQueue 12))). isQualified e"
    by (simp add: queueState_def scenarioQueue_def mkEntrant_def emptyState_def emptyBinaryData_def)
  have k: "nat (firstQualifiedIndex scenarioQueue) = 1"
    by (simp add: firstQualifiedIndex_def scenarioQueue_def mkEntrant_def)
  have q: "matchingQueue (binaryData (queueState scenarioQueue 12)) = scenarioQueue"
    by (simp add: queueState_def emptyState_def emptyBinaryData_def)
  note inst = processQueue_awards_first_qualified_and_rotates[OF h, of exampleConfig 5 "''d''" "''u''",
      unfolded Let_def q k]
  from inst have w: "winner scenarioQueue = scenarioQueue ! 1" by blast
  from inst have m: "matchingQueue (binaryData (handleProcessBinaryQueue exampleConfig 5 ''d''
        (queueState scenarioQueue 12)))
      = mapIndexed (\<lambda>user index. user\<lparr>queuePosition := index + 1\<rparr>)
          (drop (Suc 1) scenarioQueue @ take 1 scenarioQueue)" by blast
  have w': "scenarioQueue ! 1 = mkEntrant ''B'' 2 True" by (simp add: scenarioQueue_def)
  have m': "mapIndexed (\<lambda>user index. user\<lparr>queuePosition := index + 1\<rparr>)
          (drop (Suc 1) scenarioQueue @ take 1 scenarioQueue)
      = [mkEntrant ''C'' 1 False, mkEntrant ''A'' 2 False]"
    by (simp add: scenarioQueue_def mapIndexed_def mkEntrant_def)
  show ?thesis using h w m unfolding w' m' by blast
qed

lemma queueState_simps [simp]:
  "matchingQueue (binaryData (queueState queue pos)) = queue"
  "currentUserPosition (binaryData (queueState queue pos)) = pos"
  "matchedPairs (binaryData (queueState queue pos)) = []"
  "pendingPairs (binaryData (queueState queue pos)) = []"
  by (simp_all add: queueState_def emptyState_def emptyBinaryData_def)

lemma updatedQueue_scenario:
  "updatedQueue scenarioQueue = [mkEntrant ''C'' 1 False, mkEntrant ''A'' 2 False]"
  by (simp add: updatedQueue_def newQueue_def usersToRequeue_def remainingQueueAfterWinner_def
      slice_def sliceFrom_def relIndex_def firstQualifiedIndex_def scenarioQueue_def mkEntrant_def
      mapIndexed_def)

text \<open>
  Claim C2 says that \<^verbatim>\<open>processQueue\<close> on a queue of \<open>N\<close> entrants keeps the multiset of
  entrant identities and leaves the positions \<open>1..N\<close>.  The handler drops the winner:
  on the three entrants \<open>A\<close>, \<open>B\<close> (qualified), \<open>C\<close> it stores the two entrants
  \<open>C\<close>, \<open>A\<close> with the positions 1 and 2.
\<close>

theorem processQueue_drops_winner_counterexample:
  "length (matchingQueue (binaryData (queueState scenarioQueue 12))) = 3
   \<and> map q_id (matchingQueue (binaryData
         (handleProcessBinaryQueue exampleConfig 5 ''d'' (queueState scenarioQueue 12)))) = [''C'', ''A'']
   \<and> map queuePosition (matchingQueue (binaryData
         (handleProcessBinaryQueue exampleConfig 5 ''d'' (queueState scenarioQueue 12)))) = [1, 2]
   \<and> mset (map q_id (matchingQueue (binaryData
         (handleProcessBinaryQueue exampleConfig 5 ''d'' (queueState scenarioQueue 12)))))
       \<noteq> mset (map q_id (matchingQueue (binaryData (queueState scenarioQueue 12))))"
proof -
  have ex: "list_ex isQualified (matchingQueue (binaryData (queueState scenarioQueue 12)))"
    by (simp add: scenarioQueue_def mkEntrant_def)
  have q: "matchingQueue (binaryData
         (handleProcessBinaryQueue exampleConfig 5 ''d'' (queueState scenarioQueue 12)))
      = [mkEntrant ''C'' 1 False, mkEntrant ''A'' 2 False]"
    using handle_queue_Home[OF ex] by (simp add: updatedQueue_scenario)
  have "size (mset [''C'', ''A'']) \<noteq> size (mset (map q_id scenarioQueue))"
    by (simp add: scenarioQueue_def)
  then have "mset [''C'', ''A''] \<noteq> mset (map q_id scenarioQueue)" by metis
  then show ?thesis
    unfolding q by (simp add: mkEntrant_def scenarioQueue_def)
qed

text \<open>
  Claim C2 as amended.  When some entrant is qualified, the identities of the stored
  queue are those of the old queue with one occurrence of the winner's removed, and the
  stored positions are exactly \<open>1..N-1\<close> in order, in both variants.  When no entrant
  is qualified, the queue is stored as it was.
\<close>

theorem processQueue_removes_winner_and_renumbers:
  "let queue = matchingQueue (binaryData st);
       st1 = handleProcessBinaryQueue systemConfig now date st;
       st2 = handleProcessBinaryQueue_Dashboard profileId systemConfig now date st
   in ((\<exists>e \<in> set queue. isQualified e) \<longrightarrow>
          mset (map q_id (matchingQueue (binaryData st1)))
            = mset (map q_id queue) - {#q_id (winner queue)#}
        \<and> map queuePosition (matchingQueue (binaryData st1)) = map int [1..<length queue]
        \<and> matchingQueue (binaryData st2) = matchingQueue (binaryData st1))
    \<and> (\<not> (\<exists>e \<in> set queue. isQualified e) \<longrightarrow>
          matchingQueue (binaryData st1) = queue \<and> matchingQueue (binaryData st2) = queue)"
proof -
  let ?queue = "matchingQueue (binaryData st)"
  have yes: "mset (map q_id (matchingQueue (binaryData (handleProcessBinaryQueue systemConfig now date st))))
            = mset (map q_id ?queue) - {#q_id (winner ?queue)#}
        \<and> map queuePosition (matchingQueue (binaryData (handleProcessBinaryQueue systemConfig now date st)))
            = map int [1..<length ?queue]
        \<and> matchingQueue (binaryData (handleProcessBinaryQueue_Dashboard profileId systemConfig now date st))
            = matchingQueue (binaryData (handleProcessBinaryQueue systemConfig now date st))"
    if "\<exists>e \<in> set ?queue. isQualified e"
  proof -
    have ex: "list_ex isQualified ?queue" using that by (simp add: list_ex_iff)
    have n: "Suc (length (newQueue ?queue)) = length ?queue"
      using newQueue_length[OF ex] firstQualifiedIndex_range(2)[OF ex] by simp
    show ?thesis
      unfolding handle_queue_Home[OF ex] handle_queue_Dashboard[OF ex]
      using newQueue_ids_mset[OF ex] updatedQueue_positions[of ?queue]
      by (simp add: updatedQueue_ids n)
  qed
  have no: "matchingQueue (binaryData (handleProcessBinaryQueue systemConfig now date st)) = ?queue
        \<and> matchingQueue (binaryData (handleProcessBinaryQueue_Dashboard profileId systemConfig now date st)) = ?queue"
    if "\<not> (\<exists>e \<in> set ?queue. isQualified e)"
  proof -
    have nex: "\<not> list_ex isQualified ?queue" using that by (simp add: list_ex_iff)
    show ?thesis
      by (simp add: handle_noQualified_Home[OF nex] handle_noQualified_Dashboard[OF nex])
  qed
  show ?thesis unfolding Let_def using yes no by blast
qed

theorem processQueue_removes_winner_and_renumbers_witness:
  "(\<exists>e \<in> set (matchingQueue (binaryData (queueState scenarioQueue 12))). isQualified e)
   \<and> length (matchingQueue (binaryData (queueState scenarioQueue 12))) = 3
   \<and> map queuePosition (matchingQueue (binaryData
         (handleProcessBinaryQueue exampleConfig 5 ''d'' (queueState scenarioQueue 12)))) = [1, 2]"
proof -
  have h: "\<exists>e \<in> set (matchingQueue (binaryData (queueState scenarioQueue 12))). isQualified e"
    by (simp add: scenarioQueue_def mkEntrant_def)
  note inst = processQueue_removes_winner_and_renumbers[of "queueState scenarioQueue 12" exampleConfig 5
      "''d''" "''u''", unfolded Let_def]
  from inst h have "map queuePosition (matchingQueue (binaryData
         (handleProcessBinaryQueue exampleConfig 5 ''d'' (queueState scenarioQueue 12))))
       = map int [1..<length (matchingQueue (binaryData (queueState scenarioQueue 12)))]" by blast
  moreover have "length (matchingQueue (binaryData (queueState scenarioQueue 12))) = 3"
    by (simp add: scenarioQueue_def)
  moreover have "map int [1..<3] = [1, 2]" by (simp add: upt_rec)
  ultimately show ?thesis using h by simp
qed

lemma findIndex_present: "0 \<le> findIndex P xs \<longleftrightarrow> list_ex P xs"
  using findIndex_neg_iff[of P xs] by auto

lemma handle_position_Home:
  "list_ex isQualified (matchingQueue (binaryData st)) \<Longrightarrow>
   currentUserPosition (binaryData (handleProcessBinaryQueue systemConfig now date st))
     = (if list_ex (\<lambda>u. q_id u = ''bq_5'') (updatedQueue (matchingQueue (binaryData st)))
        then findIndex (\<lambda>u. q_id u = ''bq_5'') (updatedQueue (matchingQueue (binaryData st))) + 1
        else currentUserPosition (binaryData st))"
  by (simp add: handleProcessBinaryQueue_def Let_def findIndex_present)

lemma handle_position_Dashboard:
  "list_ex isQualified (matchingQueue (binaryData st)) \<Longrightarrow>
   currentUserPosition (binaryData (handleProcessBinaryQueue_Dashboard profileId systemConfig now date st))
     = (if list_ex (\<lambda>u. q_id u = profileId) (updatedQueue (matchingQueue (binaryData st)))
        then findIndex (\<lambda>u. q_id u = profileId) (updatedQueue (matchingQueue (binaryData st))) + 1
        else currentUserPosition (binaryData st))"
  by (simp add: handleProcessBinaryQueue_Dashboard_def Let_def findIndex_present)

lemma positionOf_updatedQueue:
  assumes "list_ex (\<lambda>u. q_id u = localId) (updatedQueue queue)"
  shows "positionOf localId (updatedQueue queue)
           (findIndex (\<lambda>u. q_id u = localId) (updatedQueue queue) + 1)"
proof -
  let ?P = "\<lambda>u. q_id u = localId"
  let ?i = "findIndex ?P (updatedQueue queue)"
  have nn: "0 \<le> ?i" using assms findIndex_neg_iff[of ?P "updatedQueue queue"] by simp
  then have n: "nat (?i + 1) - 1 = nat ?i" and n': "nat (?i + 1) = Suc (nat ?i)" by simp_all
  note f = findIndex_first[OF assms]
  have pos: "queuePosition (updatedQueue queue ! nat ?i) = ?i + 1"
    using f nn by (simp add: updatedQueue_nth)
  show ?thesis
    unfolding positionOf_def n using f nn pos by (simp add: list_all_iff n')
qed

text \<open>
  Claim C10.  After \<^verbatim>\<open>handleProcessBinaryQueue\<close> has rotated the queue, the stored
  \<open>currentUserPosition\<close> is the 1-based position of the local participant in the new
  queue when the participant is in it, and the value stored before when the
  participant is not (as after winning).  The local participant is \<^verbatim>\<open>'bq_5'\<close> in
  \<^verbatim>\<open>Home.tsx\<close> and \<^verbatim>\<open>profile.id\<close> in the \<^verbatim>\<open>Dashboard\<close> variant.
\<close>

theorem processQueue_currentUserPosition:
  assumes "\<exists>e \<in> set (matchingQueue (binaryData st)). isQualified e"
  shows "let st1 = handleProcessBinaryQueue systemConfig now date st;
             st2 = handleProcessBinaryQueue_Dashboard profileId systemConfig now date st;
             queue' = matchingQueue (binaryData st1)
         in matchingQueue (binaryData st2) = queue'
            \<and> (if ''bq_5'' \<in> set (map q_id queue')
                then positionOf ''bq_5'' queue' (currentUserPosition (binaryData st1))
                else currentUserPosition (binaryData st1) = currentUserPosition (binaryData st))
            \<and> (if profileId \<in> set (map q_id queue')
                then positionOf profileId queue' (currentUserPosition (binaryData st2))
                else currentUserPosition (binaryData st2) = currentUserPosition (binaryData st))"
proof -
  let ?queue = "matchingQueue (binaryData st)"
  have ex: "list_ex isQualified ?queue" using assms by (simp add: list_ex_iff)
  have mem: "\<And>l. l \<in> set (map q_id (updatedQueue ?queue))
      \<longleftrightarrow> list_ex (\<lambda>u. q_id u = l) (updatedQueue ?queue)"
    by (auto simp: list_ex_iff)
  show ?thesis
    unfolding Let_def handle_queue_Home[OF ex] handle_queue_Dashboard[OF ex]
      handle_position_Home[OF ex] handle_position_Dashboard[OF ex] mem
    using positionOf_updatedQueue[of _ ?queue] by simp
qed

theorem processQueue_currentUserPosition_witness:
  "(\<exists>e \<in> set (matchingQueue (binaryData (queueState localQueue 1))). isQualified e)
   \<and> map q_id (matchingQueue (binaryData
        (handleProcessBinaryQueue exampleConfig 5 ''d'' (queueState localQueue 1)))) = [''bq_7'', ''bq_5'']
   \<and> positionOf ''bq_5''
        (matchingQueue (binaryData (handleProcessBinaryQueue exampleConfig 5 ''d'' (queueState localQueue 1))))
        (currentUserPosition (binaryData
           (handleProcessBinaryQueue exampleConfig 5 ''d'' (queueState localQueue 1))))
   \<and> (\<exists>e \<in> set (matchingQueue (binaryData (queueState localWinsQueue 2))). isQualified e)
   \<and> map q_id (matchingQueue (binaryData
        (handleProcessBinaryQueue exampleConfig 5 ''d'' (queueState localWinsQueue 2)))) = [''bq_4'']
   \<and> currentUserPosition (binaryData
        (handleProcessBinaryQueue exampleConfig 5 ''d'' (queueState localWinsQueue 2))) = 2"
proof -
  have h1: "\<exists>e \<in> set (matchingQueue (binaryData (queueState localQueue 1))). isQualified e"
    by (simp add: localQueue_def mkEntrant_def)
  have h2: "\<exists>e \<in> set (matchingQueue (binaryData (queueState localWinsQueue 2))). isQualified e"
    by (simp add: localWinsQueue_def mkEntrant_def)
  have q1: "map q_id (matchingQueue (binaryData
        (handleProcessBinaryQueue exampleConfig 5 ''d'' (queueState localQueue 1)))) = [''bq_7'', ''bq_5'']"
    by (simp add: handleProcessBinaryQueue_def Let_def updatedQueue_def newQueue_def usersToRequeue_def
        remainingQueueAfterWinner_def slice_def sliceFrom_def relIndex_def firstQualifiedIndex_def
        localQueue_def mkEntrant_def mapIndexed_def)
  have q2: "map q_id (matchingQueue (binaryData
        (handleProcessBinaryQueue exampleConfig 5 ''d'' (queueState localWinsQueue 2)))) = [''bq_4'']"
    by (simp add: handleProcessBinaryQueue_def Let_def updatedQueue_def newQueue_def usersToRequeue_def
        remainingQueueAfterWinner_def slice_def sliceFrom_def relIndex_def firstQualifiedIndex_def
        localWinsQueue_def mkEntrant_def mapIndexed_def)
  note i1 = processQueue_currentUserPosition[OF h1, of exampleConfig 5 "''d''" "''u''", unfolded Let_def q1]
  note i2 = processQueue_currentUserPosition[OF h2, of exampleConfig 5 "''d''" "''u''", unfolded Let_def q2]
  from i1 have p1: "positionOf ''bq_5''
        (matchingQueue (binaryData (handleProcessBinaryQueue exampleConfig 5 ''d'' (queueState localQueue 1))))
        (currentUserPosition (binaryData
           (handleProcessBinaryQueue exampleConfig 5 ''d'' (queueState localQueue 1))))"
    by simp
  from i2 have p2: "currentUserPosition (binaryData
        (handleProcessBinaryQueue exampleConfig 5 ''d'' (queueState localWinsQueue 2))) = 2"
    by simp
  show ?thesis using h1 h2 q1 q2 p1 p2 by blast
qed

lemma handle_pairs_Home:
  "list_ex isQualified (matchingQueue (binaryData st)) \<Longrightarrow>
   matchedPairs (binaryData (handleProcessBinaryQueue systemConfig now date st))
     = (if q_id (winner (matchingQueue (binaryData st))) = ''bq_5''
        then matchedPairs (binaryData st) @ [newMatch systemConfig date (binaryData st)]
        else matchedPairs (binaryData st))
   \<and> pendingPairs (binaryData (handleProcessBinaryQueue systemConfig now date st))
     = pendingPairs (binaryData st)"
  by (simp add: handleProcessBinaryQueue_def Let_def)

lemma handle_pairs_Dashboard:
  "list_ex isQualified (matchingQueue (binaryData st)) \<Longrightarrow>
   matchedPairs (binaryData (handleProcessBinaryQueue_Dashboard profileId systemConfig now date st))
     = (if q_id (winner (matchingQueue (binaryData st))) = profileId
        then matchedPairs (binaryData st) @ [newMatch systemConfig date (binaryData st)]
        else matchedPairs (binaryData st))
   \<and> pendingPairs (binaryData (handleProcessBinaryQueue_Dashboard profileId systemConfig now date st))
     = pendingPairs (binaryData st)"
  by (simp add: handleProcessBinaryQueue_Dashboard_def Let_def)

text \<open>
  Claim C6 says that every call that selects a winner appends the new
  \<open>MatchedPair\<close> to \<open>matchedPairs\<close>.  The handler appends it only when the winner is
  the local participant: in the scenario queue the winner is \<open>B\<close>, and
  \<open>matchedPairs\<close> is stored as it was, in both variants.
\<close>

theorem processQueue_match_not_appended_counterexample:
  "list_ex isQualified (matchingQueue (binaryData (queueState scenarioQueue 12)))
   \<and> q_id (winner (matchingQueue (binaryData (queueState scenarioQueue 12)))) = ''B''
   \<and> matchedPairs (binaryData (handleProcessBinaryQueue exampleConfig 5 ''d'' (queueState scenarioQueue 12)))
       = matchedPairs (binaryData (queueState scenarioQueue 12))
   \<and> matchedPairs (binaryData
         (handleProcessBinaryQueue_Dashboard ''bq_5'' exampleConfig 5 ''d'' (queueState scenarioQueue 12)))
       = matchedPairs (binaryData (queueState scenarioQueue 12))
   \<and> newMatch exampleConfig ''d'' (binaryData (queueState scenarioQueue 12))
       \<notin> set (matchedPairs (binaryData
             (handleProcessBinaryQueue exampleConfig 5 ''d'' (queueState scenarioQueue 12))))"
proof -
  have ex: "list_ex isQualified (matchingQueue (binaryData (queueState scenarioQueue 12)))"
    by (simp add: scenarioQueue_def mkEntrant_def)
  have w: "q_id (winner (matchingQueue (binaryData (queueState scenarioQueue 12)))) = ''B''"
    by (simp add: winner_def firstQualifiedIndex_def scenarioQueue_def mkEntrant_def)
  show ?thesis
    using ex w handle_pairs_Home[OF ex, of exampleConfig 5 "''d''"]
      handle_pairs_Dashboard[OF ex, of "''bq_5''" exampleConfig 5 "''d''"]
    by simp
qed

text \<open>
  Claim C6 as amended.  Every call that selects a winner constructs a \<open>MatchedPair\<close>
  with status \<open>paid\<close>, the configured binary amount and
  \<open>pairNumber = count(matchedPairs) + count(pendingPairs) + 1\<close>.  It is appended to
  \<open>matchedPairs\<close> when the winner is the local participant, and \<open>matchedPairs\<close> is
  unchanged otherwise; \<open>pendingPairs\<close> is unchanged.  So the \<open>pairNumber\<close> of the pair
  the next call constructs is one more after a call that appended and the same after a
  call that did not: it never decreases.
\<close>

theorem processQueue_match_appended_for_local_winner:
  assumes "\<exists>e \<in> set (matchingQueue (binaryData st)). isQualified e"
  shows "let prev = binaryData st;
             w = winner (matchingQueue prev);
             m = newMatch systemConfig date prev;
             st1 = handleProcessBinaryQueue systemConfig now date st;
             st2 = handleProcessBinaryQueue_Dashboard profileId systemConfig now date st
         in pair_status m = paid \<and> pair_amount m = binaryAmount systemConfig
            \<and> pairNumber m = int (length (matchedPairs prev)) + int (length (pendingPairs prev)) + 1
            \<and> matchedPairs (binaryData st1)
                = (if q_id w = ''bq_5'' then matchedPairs prev @ [m] else matchedPairs prev)
            \<and> matchedPairs (binaryData st2)
                = (if q_id w = profileId then matchedPairs prev @ [m] else matchedPairs prev)
            \<and> pendingPairs (binaryData st1) = pendingPairs prev
            \<and> pendingPairs (binaryData st2) = pendingPairs prev
            \<and> pairNumber (newMatch systemConfig date' (binaryData st1))
                = (if q_id w = ''bq_5'' then pairNumber m + 1 else pairNumber m)
            \<and> pairNumber (newMatch systemConfig date' (binaryData st2))
                = (if q_id w = profileId then pairNumber m + 1 else pairNumber m)"
proof -
  have ex: "list_ex isQualified (matchingQueue (binaryData st))" using assms by (simp add: list_ex_iff)
  note h = handle_pairs_Home[OF ex, of systemConfig now date]
  note d = handle_pairs_Dashboard[OF ex, of profileId systemConfig now date]
  have m: "pair_status (newMatch systemConfig date (binaryData st)) = paid
      \<and> pair_amount (newMatch systemConfig date (binaryData st)) = binaryAmount systemConfig
      \<and> pairNumber (newMatch systemConfig date (binaryData st))
          = int (length (matchedPairs (binaryData st))) + int (length (pendingPairs (binaryData st))) + 1"
    by (simp add: newMatch_def)
  have n1: "pairNumber (newMatch systemConfig date' (binaryData (handleProcessBinaryQueue systemConfig now date st)))
      = (if q_id (winner (matchingQueue (binaryData st))) = ''bq_5''
         then pairNumber (newMatch systemConfig date (binaryData st)) + 1
         else pairNumber (newMatch systemConfig date (binaryData st)))"
    using h by (simp add: newMatch_def)
  have n2: "pairNumber (newMatch systemConfig date'
        (binaryData (handleProcessBinaryQueue_Dashboard profileId systemConfig now date st)))
      = (if q_id (winner (matchingQueue (binaryData st))) = profileId
         then pairNumber (newMatch systemConfig date (binaryData st)) + 1
         else pairNumber (newMatch systemConfig date (binaryData st)))"
    using d by (simp add: newMatch_def)
  show ?thesis unfolding Let_def using m h d n1 n2 by blast
qed

theorem processQueue_match_appended_for_local_winner_witness:
  "(\<exists>e \<in> set (matchingQueue (binaryData (queueState localWinsQueue 2))). isQualified e)
   \<and> q_id (winner (matchingQueue (binaryData (queueState localWinsQueue 2)))) = ''bq_5''
   \<and> matchedPairs (binaryData (handleProcessBinaryQueue exampleConfig 5 ''d'' (queueState localWinsQueue 2)))
       = [\<lparr> pairNumber = 1, leftUsers = [''System Match L''], rightUsers = [''System Match R''],
             pair_date = ''d'', pair_amount = 1000, pair_status = paid \<rparr>]
   \<and> pairNumber (newMatch exampleConfig ''e''
        (binaryData (handleProcessBinaryQueue exampleConfig 5 ''d'' (queueState localWinsQueue 2)))) = 2"
proof -
  have h: "\<exists>e \<in> set (matchingQueue (binaryData (queueState localWinsQueue 2))). isQualified e"
    by (simp add: localWinsQueue_def mkEntrant_def)
  have w: "q_id (winner (matchingQueue (binaryData (queueState localWinsQueue 2)))) = ''bq_5''"
    by (simp add: winner_def firstQualifiedIndex_def localWinsQueue_def mkEntrant_def)
  note inst = processQueue_match_appended_for_local_winner[OF h, of exampleConfig "''d''" 5 "''u''" "''e''",
      unfolded Let_def w]
  have m: "newMatch exampleConfig ''d'' (binaryData (queueState localWinsQueue 2))
      = \<lparr> pairNumber = 1, leftUsers = [''System Match L''], rightUsers = [''System Match R''],
             pair_date = ''d'', pair_amount = 1000, pair_status = paid \<rparr>"
    by (simp add: newMatch_def exampleConfig_def)
  from inst have "matchedPairs (binaryData (handleProcessBinaryQueue exampleConfig 5 ''d'' (queueState localWinsQueue 2)))
       = [newMatch exampleConfig ''d'' (binaryData (queueState localWinsQueue 2))]"
    by simp
  moreover from inst have "pairNumber (newMatch exampleConfig ''e''
        (binaryData (handleProcessBinaryQueue exampleConfig 5 ''d'' (queueState localWinsQueue 2))))
      = pairNumber (newMatch exampleConfig ''d'' (binaryData (queueState localWinsQueue 2))) + 1"
    by simp
  ultimately show ?thesis using h w unfolding m by simp
qed

section \<open>Properties of the payment lifecycle\<close>

lemma paymentsState_simps [simp]: "paymentsData (paymentsState ps) = ps"
  by (simp add: paymentsState_def emptyState_def)

lemma isExpiring_iff:
  "isExpiring duration now p \<longleftrightarrow>
     pay_status p = unpaid \<and> pay_type p \<noteq> ''admin''
     \<and> (\<exists>t. pay_assignedTimestamp p = Some t \<and> t \<noteq> 0 \<and> now > t + duration)"
  by (auto simp: isExpiring_def truthyNumOpt_def split: option.splits)

lemma timerInterval_map:
  "paymentsData (timerInterval now st) = map (expirePayment PAYMENT_TIMER_DURATION now) (paymentsData st)"
proof (cases "list_ex (isExpiring PAYMENT_TIMER_DURATION now) (paymentsData st)")
  case True
  then show ?thesis by (simp add: timerInterval_def Let_def)
next
  case False
  then have "map (expirePayment PAYMENT_TIMER_DURATION now) (paymentsData st) = paymentsData st"
    by (simp add: list_ex_iff expirePayment_def map_idI)
  with False show ?thesis by (simp add: timerInterval_def Let_def)
qed

lemma timerInterval_Dashboard_map:
  "paymentsData (timerInterval_Dashboard systemConfig now st)
     = map (expirePayment (paymentTimerDurationMs systemConfig) now) (paymentsData st)"
  by (simp add: timerInterval_Dashboard_def Let_def)

lemma timerInterval_frame:
  "timerInterval now st = st\<lparr>paymentsData := paymentsData (timerInterval now st)\<rparr>"
  by (simp add: timerInterval_def Let_def)

lemma timerInterval_Dashboard_frame:
  "timerInterval_Dashboard systemConfig now st
     = st\<lparr>paymentsData := paymentsData (timerInterval_Dashboard systemConfig now st)\<rparr>"
  by (simp add: timerInterval_Dashboard_def Let_def)

lemma expirePayment_expiresExactly:
  "expiresExactly duration now ps (map (expirePayment duration now) ps)"
  unfolding expiresExactly_def list_all_iff Let_def
  by (auto simp: expirePayment_def isExpiring_iff split: option.splits)

text \<open>
  Claim C4 says that the sweep expires a payment exactly when it is unpaid, not of type
  \<^verbatim>\<open>'admin'\<close>, and the current time exceeds \<open>assignedTimestamp\<close> plus the timer
  duration.  The test of the sweep also asks that \<^verbatim>\<open>p.assignedTimestamp\<close> is truthy:
  an unpaid \<^verbatim>\<open>'binary'\<close> payment whose \<open>assignedTimestamp\<close> is \<open>0\<close>, and an unpaid
  \<^verbatim>\<open>'referral'\<close> payment whose \<open>assignedTimestamp\<close> is \<^verbatim>\<open>null\<close>, stay unpaid although
  the current time exceeds the sum.
\<close>

theorem expiry_sweep_skips_unset_timestamp_counterexample:
  "pay_status (mkPayment ''pay_bin'' ''binary'' unpaid [] None (Some 0)) = unpaid
   \<and> pay_type (mkPayment ''pay_bin'' ''binary'' unpaid [] None (Some 0)) \<noteq> ''admin''
   \<and> 10000000 > toNumber (pay_assignedTimestamp (mkPayment ''pay_bin'' ''binary'' unpaid [] None (Some 0)))
                  + PAYMENT_TIMER_DURATION
   \<and> paymentsData (timerInterval 10000000
        (paymentsState [mkPayment ''pay_bin'' ''binary'' unpaid [] None (Some 0)]))
       = [mkPayment ''pay_bin'' ''binary'' unpaid [] None (Some 0)]
   \<and> 10000000 > toNumber (pay_assignedTimestamp (mkPayment ''pay_ref'' ''referral'' unpaid [] None None))
                  + paymentTimerDurationMs exampleConfig
   \<and> paymentsData (timerInterval_Dashboard exampleConfig 10000000
        (paymentsState [mkPayment ''pay_ref'' ''referral'' unpaid [] None None]))
       = [mkPayment ''pay_ref'' ''referral'' unpaid [] None None]"
  by (simp add: timerInterval_map timerInterval_Dashboard_map expirePayment_def isExpiring_def
      truthyNumOpt_def toNumber_def mkPayment_def PAYMENT_TIMER_DURATION_def paymentTimerDurationMs_def
      exampleConfig_def)

text \<open>
  Claim C4 as amended.  The payment-expiry sweep of either variant stores a payment with
  status \<open>expired\<close> exactly when its status is \<open>unpaid\<close>, its type is not
  \<^verbatim>\<open>'admin'\<close>, its \<open>assignedTimestamp\<close> is set and not zero, and the current time
  exceeds \<open>assignedTimestamp\<close> plus the timer duration (two hours in \<^verbatim>\<open>Home.tsx\<close>, the
  configured hours in the \<^verbatim>\<open>Dashboard\<close> variant).  Nothing else of such a payment
  changes; an \<^verbatim>\<open>'admin'\<close> payment, a payment in any other status and every other part
  of the state are left as they were.
\<close>

theorem expiry_sweep_transitions_exactly_due_payments:
  "expiresExactly PAYMENT_TIMER_DURATION now (paymentsData st) (paymentsData (timerInterval now st))
   \<and> timerInterval now st = st\<lparr>paymentsData := paymentsData (timerInterval now st)\<rparr>
   \<and> expiresExactly (paymentTimerDurationMs systemConfig) now (paymentsData st)
        (paymentsData (timerInterval_Dashboard systemConfig now st))
   \<and> timerInterval_Dashboard systemConfig now st
        = st\<lparr>paymentsData := paymentsData (timerInterval_Dashboard systemConfig now st)\<rparr>"
proof -
  have a: "expiresExactly PAYMENT_TIMER_DURATION now (paymentsData st) (paymentsData (timerInterval now st))"
    by (simp only: timerInterval_map expirePayment_expiresExactly)
  have b: "expiresExactly (paymentTimerDurationMs systemConfig) now (paymentsData st)
        (paymentsData (timerInterval_Dashboard systemConfig now st))"
    by (simp only: timerInterval_Dashboard_map expirePayment_expiresExactly)
  show ?thesis
    using a b timerInterval_frame[of now st] timerInterval_Dashboard_frame[of systemConfig now st]
    by blast
qed

theorem expiry_sweep_transitions_exactly_due_payments_witness:
  "pay_status (paymentsData (timerInterval 20000000
      (paymentsState [mkPayment ''pay_up2'' ''upline2'' unpaid [] None (Some (20000000 - 3 * 3600000)),
                      mkPayment ''pay_adm'' ''admin'' unpaid [] None (Some (20000000 - 3 * 3600000))])) ! 0)
     = expired
   \<and> pay_status (paymentsData (timerInterval 20000000
      (paymentsState [mkPayment ''pay_up2'' ''upline2'' unpaid [] None (Some (20000000 - 3 * 3600000)),
                      mkPayment ''pay_adm'' ''admin'' unpaid [] None (Some (20000000 - 3 * 3600000))])) ! 1)
     = unpaid"
proof -
  let ?ps = "[mkPayment ''pay_up2'' ''upline2'' unpaid [] None (Some (20000000 - 3 * 3600000)),
              mkPayment ''pay_adm'' ''admin'' unpaid [] None (Some (20000000 - 3 * 3600000))]"
  let ?ps' = "paymentsData (timerInterval 20000000 (paymentsState ?ps))"
  from expiry_sweep_transitions_exactly_due_payments[of 20000000 "paymentsState ?ps" exampleConfig]
  have e: "expiresExactly PAYMENT_TIMER_DURATION 20000000 ?ps ?ps'" by simp
  then have "?ps' ! 0 = (?ps ! 0)\<lparr>pay_status := expired\<rparr>" and "?ps' ! 1 = ?ps ! 1"
    by (simp_all add: expiresExactly_def Let_def mkPayment_def PAYMENT_TIMER_DURATION_def upt_rec)
  then show ?thesis by (simp add: mkPayment_def)
qed

text \<open>
  Claim C9.  \<^verbatim>\<open>handleRejectPayment\<close> (the same in both variants) on the id of a pending
  confirmation removes the confirmation and resets the payment it names: status
  \<open>unpaid\<close>, empty \<open>transactionId\<close>, no proof, \<open>assignedTimestamp\<close> the current
  time.  The payment's other fields, among them its receiver, amount and payment
  details, every other payment and every other part of the state stay as they were.
\<close>

theorem reject_resets_payment_and_keeps_the_rest:
  assumes "find (\<lambda>c. conf_id c = confirmationId) (pendingConfirmations st) = Some confirmation"
  shows "let st' = handleRejectPayment confirmationId now st in
           pendingConfirmations st' = filter (\<lambda>c. conf_id c \<noteq> confirmationId) (pendingConfirmations st)
         \<and> confirmation \<notin> set (pendingConfirmations st')
         \<and> length (paymentsData st') = length (paymentsData st)
         \<and> (\<forall>i < length (paymentsData st).
               let p = paymentsData st ! i; p' = paymentsData st' ! i in
               if Some (pay_id p) = conf_paymentId confirmation
               then p' = p\<lparr>pay_status := unpaid, pay_transactionId := [], pay_proof := None,
                            pay_assignedTimestamp := Some now\<rparr>
                    \<and> pay_status p' = unpaid \<and> pay_transactionId p' = [] \<and> pay_proof p' = None
                    \<and> pay_assignedTimestamp p' = Some now
                    \<and> pay_id p' = pay_id p \<and> pay_receiverId p' = pay_receiverId p
                    \<and> pay_amount p' = pay_amount p \<and> pay_type p' = pay_type p
                    \<and> pay_bankAccount p' = pay_bankAccount p \<and> pay_upiId p' = pay_upiId p
                    \<and> pay_usdtAddress p' = pay_usdtAddress p \<and> pay_qrCodeUrl p' = pay_qrCodeUrl p
                    \<and> pay_receiverContact p' = pay_receiverContact p
               else p' = p)
         \<and> st' = st\<lparr>pendingConfirmations := pendingConfirmations st', paymentsData := paymentsData st'\<rparr>"
proof -
  have c: "conf_id confirmation = confirmationId"
    using assms by (auto simp: find_Some_iff)
  have st': "handleRejectPayment confirmationId now st
      = st\<lparr>pendingConfirmations := filter (\<lambda>c. conf_id c \<noteq> confirmationId) (pendingConfirmations st),
           paymentsData := map (\<lambda>p. if Some (pay_id p) = conf_paymentId confirmation
                                     then resetPayment now p else p) (paymentsData st)\<rparr>"
    using assms by (simp add: handleRejectPayment_def)
  show ?thesis
    unfolding Let_def st' using c by (simp add: resetPayment_def)
qed

theorem reject_resets_payment_and_keeps_the_rest_witness:
  "find (\<lambda>c. conf_id c = (''conf_'', 200)) (pendingConfirmations rejectState)
     = Some (mkConfirmation 200 (Some ''pay_ref'') 200)
   \<and> pendingConfirmations (handleRejectPayment (''conf_'', 200) 500 rejectState) = []
   \<and> paymentsData (handleRejectPayment (''conf_'', 200) 500 rejectState)
       = [mkPayment ''pay_ref'' ''referral'' unpaid [] None (Some 500),
          mkPayment ''pay_bin'' ''binary'' confirmed ''T2'' (Some ''proof2.png'') (Some 100)]"
proof -
  have h: "find (\<lambda>c. conf_id c = (''conf_'', 200)) (pendingConfirmations rejectState)
     = Some (mkConfirmation 200 (Some ''pay_ref'') 200)"
    by (simp add: rejectState_def emptyState_def mkConfirmation_def)
  note inst = reject_resets_payment_and_keeps_the_rest[OF h, of 500, unfolded Let_def]
  have ps: "paymentsData rejectState
      = [mkPayment ''pay_ref'' ''referral'' pending ''T1'' (Some ''proof.png'') (Some 100),
         mkPayment ''pay_bin'' ''binary'' confirmed ''T2'' (Some ''proof2.png'') (Some 100)]"
    and cs: "pendingConfirmations rejectState = [mkConfirmation 200 (Some ''pay_ref'') 200]"
    by (simp_all add: rejectState_def emptyState_def)
  from inst have a: "pendingConfirmations (handleRejectPayment (''conf_'', 200) 500 rejectState) = []"
    by (simp add: cs mkConfirmation_def)
  from inst have l: "length (paymentsData (handleRejectPayment (''conf_'', 200) 500 rejectState)) = 2"
    by (simp add: ps)
  from inst have n: "\<forall>i < 2. paymentsData (handleRejectPayment (''conf_'', 200) 500 rejectState) ! i
      = [mkPayment ''pay_ref'' ''referral'' unpaid [] None (Some 500),
         mkPayment ''pay_bin'' ''binary'' confirmed ''T2'' (Some ''proof2.png'') (Some 100)] ! i"
    unfolding ps by (auto simp: mkConfirmation_def mkPayment_def less_Suc_eq numeral_2_eq_2)
  have "paymentsData (handleRejectPayment (''conf_'', 200) 500 rejectState)
       = [mkPayment ''pay_ref'' ''referral'' unpaid [] None (Some 500),
          mkPayment ''pay_bin'' ''binary'' confirmed ''T2'' (Some ''proof2.png'') (Some 100)]"
    by (rule nth_equalityI) (use l n in simp_all)
  with h a show ?thesis by blast
qed

lemma mapPaymentWithId_length [simp]: "length (mapPaymentWithId i f ps) = length ps"
  by (simp add: mapPaymentWithId_def)

lemma mapPaymentWithId_nth:
  "k < length ps \<Longrightarrow> mapPaymentWithId i f ps ! k = (if pay_id (ps ! k) = i then f (ps ! k) else ps ! k)"
  by (simp add: mapPaymentWithId_def)

lemma submitButtonClick_OnSubmit:
  "submitButtonClick activeMethod payment = OnSubmit p \<longleftrightarrow>
     p = payment \<and> activeMethod \<noteq> ''crypto'' \<and> pay_status payment = unpaid
     \<and> pay_transactionId payment \<noteq> [] \<and> (\<exists>s. pay_proof payment = Some s \<and> s \<noteq> [])"
  by (auto simp: submitButtonClick_def canSubmit_def isCrypto_def truthyStr_def truthyStrOpt_def
      split: option.splits)

lemma submitButtonClick_OnAutoVerify:
  "submitButtonClick activeMethod payment = OnAutoVerify p \<longleftrightarrow>
     p = payment \<and> activeMethod = ''crypto'' \<and> pay_status payment = unpaid
     \<and> pay_transactionId payment \<noteq> []"
  by (auto simp: submitButtonClick_def canSubmit_def isCrypto_def truthyStr_def)

text \<open>
  The gate of the submit button and what \<^verbatim>\<open>handleSubmitPayment\<close> stores.  The button
  acts only on an unpaid payment with a non-empty \<open>transactionId\<close>, and for a
  method other than crypto also a non-empty proof.  \<^verbatim>\<open>handleSubmitPayment\<close> sets the
  status of the payment with that id to \<open>pending\<close>, changes no other payment and no
  other field, and appends one confirmation that carries the payment's id, amount,
  \<open>transactionId\<close>, proof and receiver with \<open>submittedTimestamp = now\<close>.  It makes no
  test of the status itself: the only test is the one of the button, made when the modal
  is opened.
\<close>

lemma handleSubmitPayment_stores:
  "let st' = handleSubmitPayment senderName now date payment st;
       c = newConfirmation senderName now date payment
   in handleConfirmSubmit senderName now date (handleSubmitClick payment) st = (st', None)
      \<and> handleConfirmSubmit senderName now date None st = (st, None)
      \<and> length (paymentsData st') = length (paymentsData st)
      \<and> (\<forall>i < length (paymentsData st).
            paymentsData st' ! i
              = (if pay_id (paymentsData st ! i) = pay_id payment
                 then (paymentsData st ! i)\<lparr>pay_status := pending\<rparr> else paymentsData st ! i))
      \<and> pendingConfirmations st' = pendingConfirmations st @ [c]
      \<and> conf_paymentId c = Some (pay_id payment) \<and> conf_amount c = pay_amount payment
      \<and> conf_transactionId c = pay_transactionId payment \<and> conf_proof c = pay_proof payment
      \<and> conf_submittedTimestamp c = now \<and> conf_receiverId c = pay_receiverId payment
      \<and> st' = st\<lparr>paymentsData := paymentsData st', pendingConfirmations := pendingConfirmations st'\<rparr>"
  unfolding Let_def
  by (simp add: handleConfirmSubmit_def handleSubmitClick_def handleSubmitPayment_def
      mapPaymentWithId_nth newConfirmation_def)

text \<open>
  Claim C7 says that submit has no side effect when the payment's status is already
  something other than \<open>unpaid\<close>.  The code attempts this with the gate of the form,
  which is rendered only while the status is \<open>unpaid\<close>, and misses it when the modal
  stays open.  The submit button is clicked on an unpaid payment with a transaction id
  and a proof and opens the modal; the payment-expiry sweep (of either variant) then
  stores the payment as \<open>expired\<close>; confirming the modal runs
  \<^verbatim>\<open>handleSubmitPayment\<close> on the payment the modal kept, and the expired payment is
  stored as \<open>pending\<close> with a new confirmation.
\<close>

theorem submit_after_expiry_makes_expired_payment_pending:
  "submitButtonClick ''upi'' unpaidReferral = OnSubmit unpaidReferral
   \<and> handleSubmitClick unpaidReferral = Some unpaidReferral
   \<and> map pay_status (paymentsData (timerInterval 20000001 (paymentsState [unpaidReferral]))) = [expired]
   \<and> pendingConfirmations (timerInterval 20000001 (paymentsState [unpaidReferral])) = []
   \<and> submitButtonClick ''upi''
         (hd (paymentsData (timerInterval 20000001 (paymentsState [unpaidReferral])))) = NoAction
   \<and> map pay_status (paymentsData (fst (handleConfirmSubmit ''John Doe'' 20000002 ''d''
         (handleSubmitClick unpaidReferral) (timerInterval 20000001 (paymentsState [unpaidReferral])))))
       = [pending]
   \<and> map conf_paymentId (pendingConfirmations (fst (handleConfirmSubmit ''John Doe'' 20000002 ''d''
         (handleSubmitClick unpaidReferral) (timerInterval 20000001 (paymentsState [unpaidReferral])))))
       = [Some ''pay_ref'']
   \<and> map pay_status (paymentsData
         (timerInterval_Dashboard exampleConfig 20000001 (paymentsState [unpaidReferral]))) = [expired]
   \<and> map pay_status (paymentsData (fst (handleConfirmSubmit ''John Doe'' 20000002 ''d''
         (handleSubmitClick unpaidReferral)
         (timerInterval_Dashboard exampleConfig 20000001 (paymentsState [unpaidReferral])))))
       = [pending]
   \<and> map conf_paymentId (pendingConfirmations (fst (handleConfirmSubmit ''John Doe'' 20000002 ''d''
         (handleSubmitClick unpaidReferral)
         (timerInterval_Dashboard exampleConfig 20000001 (paymentsState [unpaidReferral])))))
       = [Some ''pay_ref'']"
proof -
  have h: "timerInterval 20000001 (paymentsState [unpaidReferral])
      = paymentsState [unpaidReferral\<lparr>pay_status := expired\<rparr>]"
    by (simp add: timerInterval_def Let_def expirePayment_def isExpiring_def truthyNumOpt_def
        PAYMENT_TIMER_DURATION_def unpaidReferral_def mkPayment_def paymentsState_def emptyState_def)
  have d: "timerInterval_Dashboard exampleConfig 20000001 (paymentsState [unpaidReferral])
      = paymentsState [unpaidReferral\<lparr>pay_status := expired\<rparr>]"
    by (simp add: timerInterval_Dashboard_def Let_def expirePayment_def isExpiring_def truthyNumOpt_def
        paymentTimerDurationMs_def exampleConfig_def unpaidReferral_def mkPayment_def
        paymentsState_def emptyState_def)
  show ?thesis
    unfolding h d
    by (simp add: submitButtonClick_def canSubmit_def isCrypto_def truthyStr_def truthyStrOpt_def
        handleConfirmSubmit_def handleSubmitClick_def handleSubmitPayment_def newConfirmation_def
        mapPaymentWithId_def unpaidReferral_def mkPayment_def paymentsState_def emptyState_def)
qed

section \<open>Properties of the qualification effect\<close>

lemma totalPayout_sum: "totalPayout ps = sum_list (map pair_amount ps)"
proof -
  have "foldl (\<lambda>sum p. sum + pair_amount p) a ps = a + sum_list (map pair_amount ps)" for a
    by (induction ps arbitrary: a) simp_all
  then show ?thesis by (simp add: totalPayout_def)
qed

lemma qualificationEffect_fires:
  assumes "qualifiedNow" and "\<not> prevIsQualifiedRef st" and "pendingPairs (binaryData st) \<noteq> []"
  shows "qualificationEffect qualifiedNow now date st
     = st\<lparr>notifications :=
             mkNotification ''n'' now income (QualifiedPayout (totalPayout (pendingPairs (binaryData st))))
             # notifications st,
           binaryData := (binaryData st)
             \<lparr>matchedPairs := matchedPairs (binaryData st) @ paidOutPairs date (pendingPairs (binaryData st)),
              pendingPairs := []\<rparr>,
           transactionsData :=
             newTransactions date (paidOutPairs date (pendingPairs (binaryData st))) @ transactionsData st,
           prevIsQualifiedRef := True\<rparr>"
  using assms by (simp add: qualificationEffect_def Let_def)

lemma qualificationEffect_idle:
  assumes "\<not> (qualifiedNow \<and> \<not> prevIsQualifiedRef st \<and> pendingPairs (binaryData st) \<noteq> [])"
  shows "qualificationEffect qualifiedNow now date st = st\<lparr>prevIsQualifiedRef := qualifiedNow\<rparr>"
  using assms by (auto simp add: qualificationEffect_def Let_def)

lemma qualificationEffect_ref [simp]:
  "prevIsQualifiedRef (qualificationEffect qualifiedNow now date st) = qualifiedNow"
  by (simp add: qualificationEffect_def Let_def)

text \<open>
  Claim C5 says that on every false-to-true transition of the flag one lump-sum income
  notification is emitted.  The effect also asks for a pending pair: on a transition
  with no pending pair it records the flag and emits nothing.
\<close>

theorem qualification_without_pending_pairs_counterexample:
  "\<not> prevIsQualifiedRef emptyState
   \<and> prevIsQualifiedRef (qualificationEffect True 5 ''d'' emptyState)
   \<and> notifications (qualificationEffect True 5 ''d'' emptyState) = notifications emptyState
   \<and> notifications emptyState = []"
  by (simp add: qualificationEffect_def Let_def emptyState_def emptyBinaryData_def)

text \<open>
  Claim C5 as amended.  A run of the effect converts exactly when the flag is true, the
  recorded flag is false and there is at least one pending pair.  It then moves every
  pending pair to the end of \<open>matchedPairs\<close> with status \<open>paid\<close>, empties
  \<open>pendingPairs\<close> (so the pending total is 0), puts one income notification with the
  sum of the pending amounts and one \<^verbatim>\<open>'binary'\<close> ledger transaction per converted pair
  in front of the lists, and changes nothing else.  Every other run, a true-to-true run
  among them, changes nothing but the recorded flag; so the run that follows a run with
  a true flag, if its flag is true again, changes nothing at all.
\<close>

theorem qualification_converts_pending_pairs_once:
  "let prev = binaryData st;
       fires = (qualifiedNow \<and> \<not> prevIsQualifiedRef st \<and> pendingPairs prev \<noteq> []);
       st' = qualificationEffect qualifiedNow now date st
   in prevIsQualifiedRef st' = qualifiedNow
      \<and> (fires \<longrightarrow>
            matchedPairs (binaryData st')
              = matchedPairs prev @ map (\<lambda>p. p\<lparr>pair_status := paid, pair_date := date\<rparr>) (pendingPairs prev)
          \<and> pendingPairs (binaryData st') = []
          \<and> totalPayout (pendingPairs (binaryData st')) = 0
          \<and> notifications st'
              = \<lparr> n_id = (''n'', now), n_type = income,
                   n_message = QualifiedPayout (sum_list (map pair_amount (pendingPairs prev))),
                   n_timestamp = now, n_isRead = False \<rparr> # notifications st
          \<and> transactionsData st'
              = map (\<lambda>p. \<lparr> tx_date = date, tx_type = ''binary'',
                            tx_details = PendingMatchPaidOut (pairNumber p),
                            tx_amount = pair_amount p, tx_status = ''paid'' \<rparr>) (pendingPairs prev)
                @ transactionsData st
          \<and> paymentsData st' = paymentsData st
          \<and> matchingQueue (binaryData st') = matchingQueue prev)
      \<and> (\<not> fires \<longrightarrow> st' = st\<lparr>prevIsQualifiedRef := qualifiedNow\<rparr>)
      \<and> (qualifiedNow \<longrightarrow> qualificationEffect True now' date' st' = st')"
proof -
  let ?fires = "qualifiedNow \<and> \<not> prevIsQualifiedRef st \<and> pendingPairs (binaryData st) \<noteq> []"
  let ?st' = "qualificationEffect qualifiedNow now date st"
  have a: "prevIsQualifiedRef ?st' = qualifiedNow" by simp
  have b: "matchedPairs (binaryData ?st')
              = matchedPairs (binaryData st)
                @ map (\<lambda>p. p\<lparr>pair_status := paid, pair_date := date\<rparr>) (pendingPairs (binaryData st))
          \<and> pendingPairs (binaryData ?st') = []
          \<and> totalPayout (pendingPairs (binaryData ?st')) = 0
          \<and> notifications ?st'
              = \<lparr> n_id = (''n'', now), n_type = income,
                   n_message = QualifiedPayout (sum_list (map pair_amount (pendingPairs (binaryData st)))),
                   n_timestamp = now, n_isRead = False \<rparr> # notifications st
          \<and> transactionsData ?st'
              = map (\<lambda>p. \<lparr> tx_date = date, tx_type = ''binary'',
                            tx_details = PendingMatchPaidOut (pairNumber p),
                            tx_amount = pair_amount p, tx_status = ''paid'' \<rparr>) (pendingPairs (binaryData st))
                @ transactionsData st
          \<and> paymentsData ?st' = paymentsData st
          \<and> matchingQueue (binaryData ?st') = matchingQueue (binaryData st)" if ?fires
    using that
    by (simp add: qualificationEffect_fires totalPayout_sum mkNotification_def paidOutPairs_def
        newTransactions_def o_def)
  have c: "?st' = st\<lparr>prevIsQualifiedRef := qualifiedNow\<rparr>" if "\<not> ?fires"
    using that by (rule qualificationEffect_idle)
  have d: "qualificationEffect True now' date' ?st' = ?st'" if qualifiedNow
  proof -
    have "qualificationEffect True now' date' ?st' = ?st'\<lparr>prevIsQualifiedRef := True\<rparr>"
      by (rule qualificationEffect_idle) (simp add: that)
    moreover have "prevIsQualifiedRef ?st' = True" using that by simp
    ultimately show ?thesis by simp
  qed
  show ?thesis unfolding Let_def using a b c d by blast
qed

theorem qualification_converts_pending_pairs_once_witness:
  "\<not> prevIsQualifiedRef pendingState
   \<and> pendingPairs (binaryData pendingState) \<noteq> []
   \<and> matchedPairs (binaryData (qualificationEffect True 7 ''2024-03-01 10:00'' pendingState))
       = [mkPair 1 1000 paid,
          (mkPair 2 1000 paid)\<lparr>pair_date := ''2024-03-01 10:00''\<rparr>,
          (mkPair 3 500 paid)\<lparr>pair_date := ''2024-03-01 10:00''\<rparr>]
   \<and> pendingPairs (binaryData (qualificationEffect True 7 ''2024-03-01 10:00'' pendingState)) = []
   \<and> map n_message (notifications (qualificationEffect True 7 ''2024-03-01 10:00'' pendingState))
       = [QualifiedPayout 1500]
   \<and> map tx_details (transactionsData (qualificationEffect True 7 ''2024-03-01 10:00'' pendingState))
       = [PendingMatchPaidOut 2, PendingMatchPaidOut 3]
   \<and> qualificationEffect True 8 ''2024-03-01 10:01''
         (qualificationEffect True 7 ''2024-03-01 10:00'' pendingState)
       = qualificationEffect True 7 ''2024-03-01 10:00'' pendingState"
proof -
  have h1: "\<not> prevIsQualifiedRef pendingState"
    and h2: "pendingPairs (binaryData pendingState) \<noteq> []"
    and mp0: "matchedPairs (binaryData pendingState) = [mkPair 1 1000 paid]"
    and pp0: "pendingPairs (binaryData pendingState)
        = [mkPair 2 1000 pending_pair, mkPair 3 500 pending_pair]"
    and n0: "notifications pendingState = []"
    and t0: "transactionsData pendingState = []"
    by (simp_all add: pendingState_def emptyState_def emptyBinaryData_def)
  note inst = qualification_converts_pending_pairs_once[where qualifiedNow = True and st = pendingState
      and now = 7 and date = "''2024-03-01 10:00''" and now' = 8 and date' = "''2024-03-01 10:01''",
      unfolded Let_def]
  have fires: "True \<and> \<not> prevIsQualifiedRef pendingState \<and> pendingPairs (binaryData pendingState) \<noteq> []"
    using h1 h2 by simp
  note conv = inst[THEN conjunct2, THEN conjunct1, THEN mp, OF fires]
  note again = inst[THEN conjunct2, THEN conjunct2, THEN conjunct2, THEN mp, OF TrueI]
  have a: "matchedPairs (binaryData (qualificationEffect True 7 ''2024-03-01 10:00'' pendingState))
       = [mkPair 1 1000 paid,
          (mkPair 2 1000 paid)\<lparr>pair_date := ''2024-03-01 10:00''\<rparr>,
          (mkPair 3 500 paid)\<lparr>pair_date := ''2024-03-01 10:00''\<rparr>]"
    unfolding conv[THEN conjunct1] mp0 pp0 by (simp add: mkPair_def)
  have b: "pendingPairs (binaryData (qualificationEffect True 7 ''2024-03-01 10:00'' pendingState)) = []"
    by (rule conv[THEN conjunct2, THEN conjunct1])
  have c: "map n_message (notifications (qualificationEffect True 7 ''2024-03-01 10:00'' pendingState))
       = [QualifiedPayout 1500]"
    unfolding conv[THEN conjunct2, THEN conjunct2, THEN conjunct2, THEN conjunct1] pp0 n0
    by (simp add: mkPair_def)
  have d: "map tx_details (transactionsData (qualificationEffect True 7 ''2024-03-01 10:00'' pendingState))
       = [PendingMatchPaidOut 2, PendingMatchPaidOut 3]"
    unfolding conv[THEN conjunct2, THEN conjunct2, THEN conjunct2, THEN conjunct2, THEN conjunct1] pp0 t0
    by (simp add: mkPair_def)
  show ?thesis using h1 h2 a b c d again by (intro conjI)
qed

section \<open>Properties of the confirmation-expiry sweep\<close>

lemma findIndex_map_cong:
  "map P xs = map Q ys \<Longrightarrow> findIndex P xs = findIndex Q ys"
proof (induction xs arbitrary: ys)
  case Nil
  then show ?case by simp
next
  case (Cons x xs)
  then obtain y ys' where ys: "ys = y # ys'" by (cases ys) auto
  with Cons.prems have "P x = Q y" and "map P xs = map Q ys'" by simp_all
  with Cons.IH[of ys'] show ?case unfolding ys by simp
qed

lemma sweptPayment_fields [simp]:
  "pay_id (sweptPayment now p) = pay_id p"
  "pay_type (sweptPayment now p) = pay_type p"
  "pay_receiverId (sweptPayment now p) = pay_receiverId p"
  by (simp_all add: sweptPayment_def resetPayment_def)

lemma sweptPayments_length [simp]: "length (sweptPayments now ps S) = length ps"
  by (simp add: sweptPayments_def)

lemma sweptPayments_nth:
  "i < length ps \<Longrightarrow>
   sweptPayments now ps S ! i = (if i \<in> S then sweptPayment now (ps ! i) else ps ! i)"
  by (simp add: sweptPayments_def nth_enumerate_eq)

lemma sweptPayments_empty [simp]: "sweptPayments now ps {} = ps"
  by (rule nth_equalityI) (simp_all add: sweptPayments_nth)

lemma sweptPayments_index:
  "paymentIndex (sweptPayments now ps S) c = paymentIndex ps c"
  unfolding paymentIndex_def
  by (rule findIndex_map_cong) (rule nth_equalityI, simp_all add: sweptPayments_nth)

lemma sweptPayments_update:
  assumes "k < length ps"
  shows "(sweptPayments now ps S)[k := sweptPayment now (sweptPayments now ps S ! k)]
           = sweptPayments now ps (insert k S)"
proof (rule nth_equalityI)
  show "length ((sweptPayments now ps S)[k := sweptPayment now (sweptPayments now ps S ! k)])
      = length (sweptPayments now ps (insert k S))" by simp
next
  fix i assume "i < length ((sweptPayments now ps S)[k := sweptPayment now (sweptPayments now ps S ! k)])"
  then have i: "i < length ps" by simp
  have idem: "sweptPayment now (sweptPayment now p) = sweptPayment now p" for p
    by (simp add: sweptPayment_def resetPayment_def)
  show "(sweptPayments now ps S)[k := sweptPayment now (sweptPayments now ps S ! k)] ! i
      = sweptPayments now ps (insert k S) ! i"
    using i assms by (simp add: nth_list_update sweptPayments_nth idem)
qed

lemma paymentIndex_range:
  "0 \<le> paymentIndex ps c \<Longrightarrow> nat (paymentIndex ps c) < length ps"
  unfolding paymentIndex_def
  using findIndex_first[of "\<lambda>p. Some (pay_id p) = conf_paymentId c" ps]
    findIndex_neg_iff[of "\<lambda>p. Some (pay_id p) = conf_paymentId c" ps]
  by auto

lemma paymentIndex_none: "\<not> 0 \<le> paymentIndex ps c \<Longrightarrow> paymentIndex ps c = -1"
  unfolding paymentIndex_def
  by (induction ps) (auto simp: Let_def split: if_splits)

lemma sweepStep_tuple:
  "sweepStep now c (nps, nds, hold)
     = (if findIndex (\<lambda>p. Some (pay_id p) = conf_paymentId c) nps = -1 then (nps, nds, hold)
        else if startsWith (pay_type (nps ! nat (findIndex (\<lambda>p. Some (pay_id p) = conf_paymentId c) nps)))
                  ''upline''
        then (nps[nat (findIndex (\<lambda>p. Some (pay_id p) = conf_paymentId c) nps) :=
                    (nps ! nat (findIndex (\<lambda>p. Some (pay_id p) = conf_paymentId c) nps))
                      \<lparr>pay_status := disputed\<rparr>],
              nds @ [c],
              insert (pay_receiverId (nps ! nat (findIndex (\<lambda>p. Some (pay_id p) = conf_paymentId c) nps)))
                hold)
        else (nps[nat (findIndex (\<lambda>p. Some (pay_id p) = conf_paymentId c) nps) :=
                    resetPayment now (nps ! nat (findIndex (\<lambda>p. Some (pay_id p) = conf_paymentId c) nps))],
              nds, hold))"
  by (simp add: sweepStep_def Let_def)

lemma sweepStep_swept:
  "sweepStep now c (sweptPayments now ps S, nds, hold)
     = (sweptPayments now ps (S \<union> sweptIndices ps [c]),
        nds @ filter (isMatrixConfirmation ps) [c],
        hold \<union> heldReceivers ps [c])"
proof (cases "0 \<le> paymentIndex ps c")
  case False
  then have m: "paymentIndex ps c = -1" by (rule paymentIndex_none)
  have "findIndex (\<lambda>p. Some (pay_id p) = conf_paymentId c) (sweptPayments now ps S) = -1"
    using sweptPayments_index[of now ps S c] m by (simp add: paymentIndex_def)
  then show ?thesis
    using False by (simp add: sweepStep_tuple sweptIndices_def heldReceivers_def isMatrixConfirmation_def)
next
  case True
  let ?k = "nat (paymentIndex ps c)"
  have k: "?k < length ps" using True by (rule paymentIndex_range)
  have idx: "findIndex (\<lambda>p. Some (pay_id p) = conf_paymentId c) (sweptPayments now ps S)
      = paymentIndex ps c"
    using sweptPayments_index[of now ps S c] by (simp add: paymentIndex_def)
  have ne: "paymentIndex ps c \<noteq> -1" using True by simp
  have ty: "pay_type (sweptPayments now ps S ! ?k) = pay_type (ps ! ?k)"
    and rc: "pay_receiverId (sweptPayments now ps S ! ?k) = pay_receiverId (ps ! ?k)"
    using k by (simp_all add: sweptPayments_nth)
  have S: "S \<union> sweptIndices ps [c] = insert ?k S"
    using True by (auto simp: sweptIndices_def)
  note upd = sweptPayments_update[OF k, of now S]
  show ?thesis
  proof (cases "startsWith (pay_type (ps ! ?k)) ''upline''")
    case True
    then have sp: "sweptPayment now (sweptPayments now ps S ! ?k)
        = (sweptPayments now ps S ! ?k)\<lparr>pay_status := disputed\<rparr>"
      using ty by (simp add: sweptPayment_def)
    have h: "heldReceivers ps [c] = {pay_receiverId (ps ! ?k)}"
      using True \<open>0 \<le> paymentIndex ps c\<close> by (auto simp: heldReceivers_def isMatrixConfirmation_def)
    show ?thesis
      unfolding sweepStep_tuple idx S h
      using True ne ty rc upd \<open>0 \<le> paymentIndex ps c\<close>
      by (simp add: Let_def sp isMatrixConfirmation_def)
  next
    case False
    then have sp: "sweptPayment now (sweptPayments now ps S ! ?k)
        = resetPayment now (sweptPayments now ps S ! ?k)"
      using ty by (simp add: sweptPayment_def)
    have h: "heldReceivers ps [c] = {}"
      using False by (auto simp: heldReceivers_def isMatrixConfirmation_def)
    show ?thesis
      unfolding sweepStep_tuple idx S h
      using False ne ty upd by (simp add: Let_def sp isMatrixConfirmation_def)
  qed
qed

lemma sweptIndices_Cons:
  "sweptIndices ps (c # cs) = sweptIndices ps [c] \<union> sweptIndices ps cs"
  by (auto simp: sweptIndices_def)

lemma heldReceivers_Cons:
  "heldReceivers ps (c # cs) = heldReceivers ps [c] \<union> heldReceivers ps cs"
  by (auto simp: heldReceivers_def)

lemma sweepLoop_swept:
  "sweepLoop now cs (sweptPayments now ps S, nds, hold)
     = (sweptPayments now ps (S \<union> sweptIndices ps cs),
        nds @ filter (isMatrixConfirmation ps) cs,
        hold \<union> heldReceivers ps cs)"
proof (induction cs arbitrary: S nds hold)
  case Nil
  then show ?case by (simp add: sweptIndices_def heldReceivers_def)
next
  case (Cons c cs)
  show ?case
    unfolding sweepLoop.simps sweepStep_swept Cons.IH
    by (simp add: sweptIndices_Cons[of ps c cs] heldReceivers_Cons[of ps c cs] Un_assoc)
qed

lemma confirmationTimerInterval_swept:
  assumes "expiredConfirmations PAYMENT_TIMER_DURATION now (pendingConfirmations st) = cs"
  shows "confirmationTimerInterval now st
     = st\<lparr>pendingConfirmations := filter (\<lambda>c. conf_id c \<notin> conf_id ` set cs) (pendingConfirmations st),
          paymentsData := sweptPayments now (paymentsData st) (sweptIndices (paymentsData st) cs),
          disputes := disputes st @ filter (isMatrixConfirmation (paymentsData st)) cs,
          allUsers := (if filter (isMatrixConfirmation (paymentsData st)) cs \<noteq> []
                       then map (\<lambda>u. if usr_id u \<in> heldReceivers (paymentsData st) cs
                                      then u\<lparr>usr_status := on_hold\<rparr> else u) (allUsers st)
                       else allUsers st)\<rparr>"
proof (cases "cs = []")
  case True
  then show ?thesis
    using assms by (simp add: confirmationTimerInterval_def sweptIndices_def)
next
  case False
  have loop: "sweepLoop now cs (paymentsData st, [], {})
      = (sweptPayments now (paymentsData st) (sweptIndices (paymentsData st) cs),
         filter (isMatrixConfirmation (paymentsData st)) cs,
         heldReceivers (paymentsData st) cs)"
    using sweepLoop_swept[of now cs "paymentsData st" "{}" "[]" "{}"] by simp
  show ?thesis
    unfolding confirmationTimerInterval_def Let_def assms loop
    using False by simp
qed

text \<open>
  The confirmation-expiry sweep of \<^verbatim>\<open>Home.tsx\<close> does what claim C3 says.  An expired
  pending confirmation leaves the pending list.  When the payment it names is of an
  \<^verbatim>\<open>upline\<close> type, the payment is stored with status \<open>disputed\<close>, the confirmation
  is among the disputes added, and every user whose id is the payment's receiver is on
  hold; otherwise the payment is stored reset to \<open>unpaid\<close> with \<open>transactionId\<close> and
  proof cleared and \<open>assignedTimestamp = now\<close>, and the confirmation is not among the
  disputes added.
\<close>

lemma Home_confirmation_sweep_escalates_upline_only:
  assumes "c \<in> set (pendingConfirmations st)"
    and "now > conf_submittedTimestamp c + PAYMENT_TIMER_DURATION"
    and "0 \<le> paymentIndex (paymentsData st) c"
  shows "let st' = confirmationTimerInterval now st;
             k = nat (paymentIndex (paymentsData st) c);
             p = paymentsData st ! k;
             p' = paymentsData st' ! k;
             added = drop (length (disputes st)) (disputes st')
         in c \<notin> set (pendingConfirmations st')
            \<and> take (length (disputes st)) (disputes st') = disputes st
            \<and> (if startsWith (pay_type p) ''upline''
                then p' = p\<lparr>pay_status := disputed\<rparr> \<and> c \<in> set added
                     \<and> (\<forall>u \<in> set (allUsers st'). usr_id u = pay_receiverId p \<longrightarrow> usr_status u = on_hold)
                else p' = resetPayment now p \<and> c \<notin> set added)"
proof -
  let ?ps = "paymentsData st"
  let ?cs = "expiredConfirmations PAYMENT_TIMER_DURATION now (pendingConfirmations st)"
  let ?k = "nat (paymentIndex ?ps c)"
  have cs: "c \<in> set ?cs" using assms(1,2) by (simp add: expiredConfirmations_def)
  note st' = confirmationTimerInterval_swept[OF refl, of now st]
  have k: "?k < length ?ps" using assms(3) by (rule paymentIndex_range)
  have kS: "?k \<in> sweptIndices ?ps ?cs" using cs assms(3) by (auto simp: sweptIndices_def)
  have p': "paymentsData (confirmationTimerInterval now st) ! ?k = sweptPayment now (?ps ! ?k)"
    unfolding st' using k kS by (simp add: sweptPayments_nth)
  have a: "c \<notin> set (pendingConfirmations (confirmationTimerInterval now st))"
    unfolding st' using cs by simp
  have d: "disputes (confirmationTimerInterval now st)
      = disputes st @ filter (isMatrixConfirmation ?ps) ?cs"
    unfolding st' by simp
  have m: "isMatrixConfirmation ?ps c \<longleftrightarrow> startsWith (pay_type (?ps ! ?k)) ''upline''"
    using assms(3) by (simp add: isMatrixConfirmation_def)
  have hold: "\<forall>u \<in> set (allUsers (confirmationTimerInterval now st)).
      usr_id u = pay_receiverId (?ps ! ?k) \<longrightarrow> usr_status u = on_hold"
    if "startsWith (pay_type (?ps ! ?k)) ''upline''"
  proof -
    have mem: "c \<in> set (filter (isMatrixConfirmation ?ps) ?cs)" using cs m that by simp
    have ne: "filter (isMatrixConfirmation ?ps) ?cs \<noteq> []"
    proof
      assume "filter (isMatrixConfirmation ?ps) ?cs = []"
      with mem show False by (simp only: list.set empty_iff)
    qed
    have "pay_receiverId (?ps ! ?k) \<in> heldReceivers ?ps ?cs"
      using cs m that by (auto simp: heldReceivers_def)
    then show ?thesis unfolding st' using ne by auto
  qed
  have added: "c \<in> set (filter (isMatrixConfirmation ?ps) ?cs)
      \<longleftrightarrow> startsWith (pay_type (?ps ! ?k)) ''upline''"
    using cs m by simp
  show ?thesis
    unfolding Let_def p' d using a hold added by (simp add: sweptPayment_def)
qed

text \<open>
  Claim C3 on the two variants, at one state: a \<^verbatim>\<open>'referral'\<close> and an \<^verbatim>\<open>'upline1'\<close>
  payment, each with a pending confirmation older than the two hours, and the receiver
  \<^verbatim>\<open>usr_01\<close> active.  The sweep of \<^verbatim>\<open>Home.tsx\<close> resets the referral payment to
  \<open>unpaid\<close>, disputes the upline payment alone and puts the receiver on hold.  The
  sweep of the \<^verbatim>\<open>Dashboard\<close> variant has no test of the payment's type: it stores
  both payments as \<open>disputed\<close>, adds both confirmations to the disputes and puts nobody
  on hold.
\<close>

theorem confirmation_sweep_variants_differ:
  "expiredConfirmations PAYMENT_TIMER_DURATION 20000000 (pendingConfirmations sweepState)
     = pendingConfirmations sweepState
   \<and> paymentTimerDurationMs exampleConfig = PAYMENT_TIMER_DURATION
   \<and> map pay_type (paymentsData sweepState) = [''referral'', ''upline1'']
   \<and> pendingConfirmations (confirmationTimerInterval 20000000 sweepState) = []
   \<and> map pay_status (paymentsData (confirmationTimerInterval 20000000 sweepState)) = [unpaid, disputed]
   \<and> disputes (confirmationTimerInterval 20000000 sweepState) = [mkConfirmation 201 (Some ''pay_up1'') 201]
   \<and> map usr_status (allUsers (confirmationTimerInterval 20000000 sweepState)) = [on_hold]
   \<and> pendingConfirmations (confirmationTimerInterval_Dashboard exampleConfig 20000000 sweepState) = []
   \<and> map pay_status (paymentsData (confirmationTimerInterval_Dashboard exampleConfig 20000000 sweepState))
       = [disputed, disputed]
   \<and> disputes (confirmationTimerInterval_Dashboard exampleConfig 20000000 sweepState)
       = [mkConfirmation 200 (Some ''pay_ref'') 200, mkConfirmation 201 (Some ''pay_up1'') 201]
   \<and> map usr_status (allUsers (confirmationTimerInterval_Dashboard exampleConfig 20000000 sweepState))
       = [active]"
proof -
  have e: "expiredConfirmations PAYMENT_TIMER_DURATION 20000000 (pendingConfirmations sweepState)
      = [mkConfirmation 200 (Some ''pay_ref'') 200, mkConfirmation 201 (Some ''pay_up1'') 201]"
    by (simp add: expiredConfirmations_def PAYMENT_TIMER_DURATION_def sweepState_def emptyState_def
        mkConfirmation_def)
  have d: "paymentTimerDurationMs exampleConfig = PAYMENT_TIMER_DURATION"
    by (simp add: paymentTimerDurationMs_def PAYMENT_TIMER_DURATION_def exampleConfig_def)
  have s: "pendingConfirmations sweepState
      = [mkConfirmation 200 (Some ''pay_ref'') 200, mkConfirmation 201 (Some ''pay_up1'') 201]"
    "paymentsData sweepState
      = [mkPayment ''pay_ref'' ''referral'' pending ''T1'' (Some ''proof.png'') (Some 100),
         mkPayment ''pay_up1'' ''upline1'' pending ''T1'' (Some ''proof.png'') (Some 100)]"
    "allUsers sweepState = [mkUser ''usr_01'' active]"
    "disputes sweepState = []"
    by (simp_all add: sweepState_def emptyState_def)
  have loop: "sweepLoop 20000000
        [mkConfirmation 200 (Some ''pay_ref'') 200, mkConfirmation 201 (Some ''pay_up1'') 201]
        (paymentsData sweepState, [], {})
      = ([mkPayment ''pay_ref'' ''referral'' unpaid [] None (Some 20000000),
          mkPayment ''pay_up1'' ''upline1'' disputed ''T1'' (Some ''proof.png'') (Some 100)],
         [mkConfirmation 201 (Some ''pay_up1'') 201], {''usr_01''})"
    unfolding s
    by (simp add: sweepStep_def Let_def startsWith_def resetPayment_def mkPayment_def mkConfirmation_def)
  have home: "confirmationTimerInterval 20000000 sweepState
      = sweepState
          \<lparr>pendingConfirmations := [],
           paymentsData := [mkPayment ''pay_ref'' ''referral'' unpaid [] None (Some 20000000),
                            mkPayment ''pay_up1'' ''upline1'' disputed ''T1'' (Some ''proof.png'') (Some 100)],
           disputes := [mkConfirmation 201 (Some ''pay_up1'') 201],
           allUsers := [mkUser ''usr_01'' on_hold]\<rparr>"
    unfolding confirmationTimerInterval_def Let_def e loop
    by (simp add: s mkConfirmation_def mkUser_def)
  have f: "expiredConfFor [mkConfirmation 200 (Some ''pay_ref'') 200, mkConfirmation 201 (Some ''pay_up1'') 201]
        (mkPayment ''pay_ref'' ''referral'' pending ''T1'' (Some ''proof.png'') (Some 100))
      = Some (mkConfirmation 200 (Some ''pay_ref'') 200)"
    "expiredConfFor [mkConfirmation 200 (Some ''pay_ref'') 200, mkConfirmation 201 (Some ''pay_up1'') 201]
        (mkPayment ''pay_up1'' ''upline1'' pending ''T1'' (Some ''proof.png'') (Some 100))
      = Some (mkConfirmation 201 (Some ''pay_up1'') 201)"
    by (simp_all add: expiredConfFor_def mkConfirmation_def mkPayment_def)
  have dash: "confirmationTimerInterval_Dashboard exampleConfig 20000000 sweepState
      = sweepState
          \<lparr>pendingConfirmations := [],
           paymentsData := [mkPayment ''pay_ref'' ''referral'' disputed ''T1'' (Some ''proof.png'') (Some 100),
                            mkPayment ''pay_up1'' ''upline1'' disputed ''T1'' (Some ''proof.png'') (Some 100)],
           disputes := [mkConfirmation 200 (Some ''pay_ref'') 200, mkConfirmation 201 (Some ''pay_up1'') 201]\<rparr>"
    unfolding confirmationTimerInterval_Dashboard_def Let_def d e
    by (simp add: s f List.map_filter_simps) (simp add: mkConfirmation_def mkPayment_def)
  show ?thesis
    unfolding home dash using e d by (simp add: s mkPayment_def mkUser_def)
qed

section \<open>Properties of crypto auto-verification\<close>

text \<open>
  \<^verbatim>\<open>handleAutoVerify\<close> of \<^verbatim>\<open>Home.tsx\<close> does what claim C8 says.  It stores the
  payment as \<open>verifying\<close> and starts one timer of 3000 ms.  When that timer fires with
  success, the payment is stored as \<open>confirmed\<close> and one ledger transaction is put in
  front of the ledger.  When it fires with failure, the payment is stored as \<open>failed\<close>
  and a second timer of 3000 ms is started, which stores the payment as \<open>unpaid\<close> with
  an empty \<open>transactionId\<close>.  No other payment changes.
\<close>

lemma Home_autoVerify_lifecycle:
  "let started = handleAutoVerify payment st;
       st1 = fst started;
       settle = hd (snd started);
       succeeded = runTimer True now date (snd settle) st1;
       failedRun = runTimer False now date (snd settle) st1;
       reset = hd (snd failedRun);
       reverted = runTimer isSuccess now' date' (snd reset) (fst failedRun)
   in snd started = [(3000, Settle payment)]
      \<and> snd succeeded = []
      \<and> transactionsData (fst succeeded) = autoVerifiedTransaction date payment # transactionsData st
      \<and> snd failedRun = [(3000, ResetFailed payment)]
      \<and> snd reverted = []
      \<and> (\<forall>i < length (paymentsData st).
            let p = paymentsData st ! i in
            if pay_id p = pay_id payment
            then paymentsData st1 ! i = p\<lparr>pay_status := verifying\<rparr>
                 \<and> paymentsData (fst succeeded) ! i = p\<lparr>pay_status := confirmed\<rparr>
                 \<and> paymentsData (fst failedRun) ! i = p\<lparr>pay_status := failed\<rparr>
                 \<and> paymentsData (fst reverted) ! i = p\<lparr>pay_status := unpaid, pay_transactionId := []\<rparr>
            else paymentsData st1 ! i = p \<and> paymentsData (fst succeeded) ! i = p
                 \<and> paymentsData (fst failedRun) ! i = p \<and> paymentsData (fst reverted) ! i = p)"
  by (simp add: Let_def handleAutoVerify_def mapPaymentWithId_nth)

text \<open>
  Claim C8 on the two variants, at one unpaid payment with a transaction hash and a
  complete crypto configuration.  Both store the payment as \<open>verifying\<close> and start a
  timer of 3000 ms.  When the timer fires with failure, \<^verbatim>\<open>Home.tsx\<close> stores the payment
  as \<open>failed\<close>.  The \<^verbatim>\<open>Dashboard\<close> variant never stores \<open>failed\<close>: its failure
  branch only calls \<^verbatim>\<open>addErrorNotification\<close>, so the payment stays \<open>verifying\<close>
  for the second 3000 ms, after which it is stored as \<open>unpaid\<close> with an empty
  \<open>transactionId\<close> together with an error notification.
\<close>

theorem autoVerify_failure_variants_differ:
  "map pay_status (paymentsData (fst (handleAutoVerify cryptoPayment (paymentsState [cryptoPayment]))))
     = [verifying]
   \<and> snd (handleAutoVerify cryptoPayment (paymentsState [cryptoPayment])) = [(3000, Settle cryptoPayment)]
   \<and> map pay_status (paymentsData (fst (runTimer False 3100 ''d'' (Settle cryptoPayment)
        (fst (handleAutoVerify cryptoPayment (paymentsState [cryptoPayment]))))))
     = [failed]
   \<and> map pay_status (paymentsData (fst (handleAutoVerify_Dashboard exampleConfig 100 cryptoPayment
        (paymentsState [cryptoPayment]))))
     = [verifying]
   \<and> snd (handleAutoVerify_Dashboard exampleConfig 100 cryptoPayment (paymentsState [cryptoPayment]))
     = [(3000, Settle_Dashboard cryptoPayment (paymentsState [cryptoPayment]))]
   \<and> map pay_status (paymentsData (fst (runTimer False 3100 ''d''
        (Settle_Dashboard cryptoPayment (paymentsState [cryptoPayment]))
        (fst (handleAutoVerify_Dashboard exampleConfig 100 cryptoPayment (paymentsState [cryptoPayment]))))))
     = [verifying]
   \<and> snd (runTimer False 3100 ''d''
        (Settle_Dashboard cryptoPayment (paymentsState [cryptoPayment]))
        (fst (handleAutoVerify_Dashboard exampleConfig 100 cryptoPayment (paymentsState [cryptoPayment]))))
     = [(3000, ErrorReset_Dashboard
          [mkNotification ''n_err_'' 3100 error VerificationFailed]
          [cryptoPayment\<lparr>pay_transactionId := []\<rparr>])]
   \<and> map pay_status (paymentsData (fst (runTimer False 6100 ''d''
        (ErrorReset_Dashboard [mkNotification ''n_err_'' 3100 error VerificationFailed]
           [cryptoPayment\<lparr>pay_transactionId := []\<rparr>])
        (fst (handleAutoVerify_Dashboard exampleConfig 100 cryptoPayment (paymentsState [cryptoPayment]))))))
     = [unpaid]"
  by (simp add: handleAutoVerify_def handleAutoVerify_Dashboard_def addErrorNotification_def
      mapPaymentWithId_def truthyStr_def exampleConfig_def cryptoPayment_def mkPayment_def
      paymentsState_def emptyState_def)

theorem autoVerify_failure_variants_differ_witness:
  "map pay_status (paymentsData (fst (runTimer False 3100 ''d''
        (Settle_Dashboard cryptoPayment (paymentsState [cryptoPayment]))
        (fst (handleAutoVerify_Dashboard exampleConfig 100 cryptoPayment (paymentsState [cryptoPayment]))))))
     \<noteq> [failed]"
proof -
  have "map pay_status (paymentsData (fst (runTimer False 3100 ''d''
        (Settle_Dashboard cryptoPayment (paymentsState [cryptoPayment]))
        (fst (handleAutoVerify_Dashboard exampleConfig 100 cryptoPayment (paymentsState [cryptoPayment]))))))
     = [verifying]"
    using autoVerify_failure_variants_differ by (elim conjE)
  then show ?thesis by simp
qed

end
